theory Spec2Isabelle
  imports Complex_Main "HOL-Library.Word" "HOL-Library.AList" "HOL-Library.Multiset"
begin

section \<open>Exact decimals\<close>

text \<open>
  Prices and quantities are values of the arbitrary-precision decimal type of the
  \<^verbatim>\<open>shopspring/decimal\<close> library. Its comparisons (\<^verbatim>\<open>Equal\<close>, \<^verbatim>\<open>GreaterThan\<close>,
  \<^verbatim>\<open>LessThan\<close>, \<^verbatim>\<open>IsZero\<close>) compare numeric values, and \<^verbatim>\<open>Add\<close>, \<^verbatim>\<open>Sub\<close>, \<^verbatim>\<open>Mul\<close> are
  exact, so a decimal is modelled by the rational number it denotes and these operations
  by the operations of \<open>rat\<close>. \<^verbatim>\<open>String()\<close> prints a value without trailing zeros; it is a
  canonical rendering, one string per numeric value, so a Go map keyed by \<^verbatim>\<open>String()\<close> is a
  map keyed by the value.

  Division is not exact: \<^verbatim>\<open>d.Div(d2)\<close> is \<^verbatim>\<open>d.DivRound(d2, DivisionPrecision)\<close> with
  \<^verbatim>\<open>DivisionPrecision = 16\<close>, the quotient rounded half away from zero to 16 digits after the
  decimal point. The Go code divides by the constant 2 and by a tick size it has found
  to be non-zero.
\<close>

type_synonym decimal = rat

definition DivisionPrecision :: nat where
  "DivisionPrecision = 16"

definition dec_Div :: "decimal \<Rightarrow> decimal \<Rightarrow> decimal" where
  "dec_Div d d2 =
     (let x = d / d2 * 10 ^ DivisionPrecision
      in sgn x * of_int \<lfloor>\<bar>x\<bar> + 1 / 2\<rfloor> / 10 ^ DivisionPrecision)"

definition dec_Floor :: "decimal \<Rightarrow> decimal" where
  "dec_Floor d = of_int \<lfloor>d\<rfloor>"

definition dec_Ceil :: "decimal \<Rightarrow> decimal" where
  "dec_Ceil d = of_int \<lceil>d\<rceil>"

section \<open>Price levels\<close>

text \<open>
  \<^verbatim>\<open>exchange.PriceLevel\<close> carries price and quantity as strings, \<^verbatim>\<open>types.PriceLevel\<close> as
  decimals; both have the fields \<^verbatim>\<open>Price\<close> and \<^verbatim>\<open>Quantity\<close>, so one record with a type
  parameter stands for both: \<open>string PriceLevel\<close> and \<open>decimal PriceLevel\<close>.
\<close>

record 'a PriceLevel =
  Price :: 'a
  Quantity :: 'a

section \<open>Tick aggregation (internal/aggregation/aggregator.go)\<close>

text \<open>
  The aggregator holds the current tick, a \<^verbatim>\<open>float64\<close>; every use converts it with
  \<^verbatim>\<open>decimal.NewFromFloat\<close>, which yields the shortest decimal that prints the float
  (0.1, 1, 10, 50, 100 for the five tick levels). The model holds that decimal.
\<close>

record Aggregator =
  currentTick :: decimal

definition roundToTickBid :: "Aggregator \<Rightarrow> decimal \<Rightarrow> decimal" where
  "roundToTickBid a price =
     (let tickSize = currentTick a
      in if tickSize = 0 then price
         else let divided = dec_Div price tickSize;
                  floored = dec_Floor divided
              in floored * tickSize)"

definition roundToTickAsk :: "Aggregator \<Rightarrow> decimal \<Rightarrow> decimal" where
  "roundToTickAsk a price =
     (let tickSize = currentTick a
      in if tickSize = 0 then price
         else let divided = dec_Div price tickSize;
                  ceiled = dec_Ceil divided
              in ceiled * tickSize)"

text \<open>
  The body of the aggregation loop, the same in \<^verbatim>\<open>AggregateBids\<close> and \<^verbatim>\<open>AggregateAsks\<close>:
  \<^verbatim>\<open>tickMap\<close> is a Go map keyed by \<^verbatim>\<open>roundedPrice.String()\<close>, here an association list
  with distinct keys, keyed by the value. A new key goes to the end of the list.
\<close>

definition tickMap_add ::
  "decimal \<Rightarrow> decimal PriceLevel \<Rightarrow> (decimal \<times> decimal PriceLevel) list
     \<Rightarrow> (decimal \<times> decimal PriceLevel) list" where
  "tickMap_add roundedPrice level tickMap =
     (case map_of tickMap roundedPrice of
        Some existing \<Rightarrow>
          AList.update roundedPrice
            \<lparr>Price = roundedPrice, Quantity = Quantity existing + Quantity level\<rparr> tickMap
      | None \<Rightarrow>
          AList.update roundedPrice
            \<lparr>Price = roundedPrice, Quantity = Quantity level\<rparr> tickMap)"

text \<open>
  The result slice is filled by ranging over the Go map, in an order the language leaves
  open. The model lists the buckets in the order of their first insertion; statements
  about the result speak of its set of buckets, or of every reordering of it.
\<close>

definition AggregateBids :: "Aggregator \<Rightarrow> decimal PriceLevel list \<Rightarrow> decimal PriceLevel list" where
  "AggregateBids a levels =
     (if levels = [] then levels
      else map snd (fold (\<lambda>level tickMap. tickMap_add (roundToTickBid a (Price level)) level tickMap)
                      levels []))"

definition AggregateAsks :: "Aggregator \<Rightarrow> decimal PriceLevel list \<Rightarrow> decimal PriceLevel list" where
  "AggregateAsks a levels =
     (if levels = [] then levels
      else map snd (fold (\<lambda>level tickMap. tickMap_add (roundToTickAsk a (Price level)) level tickMap)
                      levels []))"

section \<open>Canonical exchange types (internal/exchange)\<close>

text \<open>
  \<^verbatim>\<open>int64\<close> is a 64-bit word: \<open>+\<close> wraps, and the comparisons of the Go code are the
  signed ones (\<open>\<le>s\<close>, \<open><s\<close>). A \<^verbatim>\<open>time.Time\<close> is a number of milliseconds. Several Go
  structs share field names (\<^verbatim>\<open>Bids\<close>, \<^verbatim>\<open>Exchange\<close>, \<^verbatim>\<open>BestBid\<close>, ...); where a
  later record hides the name of an earlier one the field is written with its record,
  \<open>Snapshot.Bids\<close>.
\<close>

type_synonym int64 = "64 word"
type_synonym time = int

text \<open>The REST payload of OKX (package okx, types).\<close>

record OrderBookData =
  Asks :: "string list list"
  Bids :: "string list list"
  Ts :: string

record OrderBookResponse =
  Code :: string
  Msg :: string
  Data :: "OrderBookData list"

text \<open>Of the adapter's fields the conversion of a poll reads the two symbols only.\<close>

record SpotExchange =
  symbol :: string
  instId :: string

text \<open>
  The stats message of the broadcast server. Its decimal fields are strings in Go, each
  the \<^verbatim>\<open>String()\<close> of a decimal; the model keeps the value that is printed.
\<close>

record StatsMessage =
  Type :: string
  Exchange :: string
  BestBid :: decimal
  BestAsk :: decimal
  MidPrice :: decimal
  Spread :: decimal
  BidLiquidity05Pct :: decimal
  AskLiquidity05Pct :: decimal
  DeltaLiquidity05Pct :: decimal
  BidLiquidity2Pct :: decimal
  AskLiquidity2Pct :: decimal
  DeltaLiquidity2Pct :: decimal
  BidLiquidity10Pct :: decimal
  AskLiquidity10Pct :: decimal
  DeltaLiquidity10Pct :: decimal
  TotalBidsQty :: decimal
  TotalAsksQty :: decimal
  TotalDelta :: decimal
  Timestamp :: int64

record Snapshot =
  Exchange :: string
  Symbol :: string
  LastUpdateID :: int64
  Bids :: "string PriceLevel list"
  Asks :: "string PriceLevel list"
  Timestamp :: time

record DepthUpdate =
  Exchange :: string
  Symbol :: string
  EventTime :: time
  FirstUpdateID :: int64
  FinalUpdateID :: int64
  PrevUpdateID :: int64
  Bids :: "string PriceLevel list"
  Asks :: "string PriceLevel list"

section \<open>The OKX adapter (internal/exchange/okx/spot.go)\<close>

definition GetName :: string where
  "GetName = ''okx''"

text \<open>
  \<^verbatim>\<open>convertSnapshot\<close> fills a slice of the length of the input; an entry with fewer than
  two strings leaves the zero value, a level of two empty strings. \<^verbatim>\<open>time.Now()\<close> is the
  argument \<open>now\<close>.
\<close>

definition convertLevel :: "string list \<Rightarrow> string PriceLevel" where
  "convertLevel entry =
     (if 2 \<le> length entry then \<lparr>Price = entry ! 0, Quantity = entry ! 1\<rparr>
      else \<lparr>Price = '''', Quantity = ''''\<rparr>)"

definition convertSnapshot :: "SpotExchange \<Rightarrow> OrderBookData \<Rightarrow> time \<Rightarrow> Snapshot" where
  "convertSnapshot e data now =
     \<lparr>Snapshot.Exchange = GetName,
      Snapshot.Symbol = instId e,
      LastUpdateID = 0,
      Snapshot.Bids = map convertLevel (OrderBookData.Bids data),
      Snapshot.Asks = map convertLevel (OrderBookData.Asks data),
      Timestamp = now\<rparr>"

text \<open>
  \<^verbatim>\<open>GetSnapshot\<close> performs an HTTP request. The model takes its outcome as an argument:
  \<open>None\<close> when the request or the decoding of the body failed, the decoded response
  otherwise.
\<close>

datatype okx_error = RequestFailed | ApiError string string | EmptyResponseData

definition GetSnapshot ::
  "SpotExchange \<Rightarrow> OrderBookResponse option \<Rightarrow> time \<Rightarrow> okx_error + Snapshot" where
  "GetSnapshot e response now =
     (case response of
        None \<Rightarrow> Inl RequestFailed
      | Some okxResp \<Rightarrow>
          if Code okxResp \<noteq> ''0'' then Inl (ApiError (Code okxResp) (Msg okxResp))
          else if length (Data okxResp) = 0 then Inl EmptyResponseData
          else Inr (convertSnapshot e (Data okxResp ! 0) now))"

text \<open>
  \<^verbatim>\<open>poll\<close> builds one update from the polled snapshot and offers it to the update channel;
  the model returns the update offered, \<open>None\<close> when the poll failed and nothing is sent.
\<close>

definition poll :: "SpotExchange \<Rightarrow> OrderBookResponse option \<Rightarrow> time \<Rightarrow> DepthUpdate option" where
  "poll e response now =
     (case GetSnapshot e response now of
        Inl err \<Rightarrow> None
      | Inr snapshot \<Rightarrow>
          Some \<lparr>Exchange = GetName,
                Symbol = instId e,
                EventTime = Timestamp snapshot,
                FirstUpdateID = 0,
                FinalUpdateID = 0,
                PrevUpdateID = 0,
                Bids = Snapshot.Bids snapshot,
                Asks = Snapshot.Asks snapshot\<rparr>)"

section \<open>The order-book engine (internal/orderbook/orderbook.go)\<close>

text \<open>\<^verbatim>\<open>types.Stats\<close>, without \<^verbatim>\<open>ConnectionTime\<close>, which no function below reads.\<close>

record Stats =
  EventsProcessed :: int64
  LastEventTime :: time
  BufferedEvents :: nat
  BidLevels :: nat
  AskLevels :: nat
  BestBid :: decimal
  BestAsk :: decimal
  Spread :: decimal
  BidLiquidity05Pct :: decimal
  AskLiquidity05Pct :: decimal
  BidLiquidity2Pct :: decimal
  AskLiquidity2Pct :: decimal
  BidLiquidity10Pct :: decimal
  AskLiquidity10Pct :: decimal
  DeltaLiquidity05Pct :: decimal
  DeltaLiquidity2Pct :: decimal
  DeltaLiquidity10Pct :: decimal
  TotalBidsQty :: decimal
  TotalAsksQty :: decimal
  TotalDelta :: decimal

text \<open>
  The book, without its mutex and its unused \<^verbatim>\<open>currentTick\<close>. The two Go maps from price
  string to level are association lists with distinct keys: an insertion overwrites the
  entry of its key or appends a new one, a deletion removes it. The loops that range over
  a map only take a maximum, a minimum or sums, so the order of the list does not show.
\<close>

record OrderBook =
  bids :: "(string \<times> decimal PriceLevel) list"
  asks :: "(string \<times> decimal PriceLevel) list"
  lastUpdateID :: int64
  eventBuffer :: "DepthUpdate list"
  initialized :: bool
  stats :: Stats
  bestBid :: decimal
  bestAsk :: decimal
  bidLevels :: nat
  askLevels :: nat

definition New :: OrderBook where
  "New =
     \<lparr>bids = [], asks = [], lastUpdateID = 0, eventBuffer = [], initialized = False,
      stats = \<lparr>EventsProcessed = 0, LastEventTime = 0, BufferedEvents = 0, BidLevels = 0,
               AskLevels = 0, BestBid = 0, BestAsk = 0, Spread = 0,
               BidLiquidity05Pct = 0, AskLiquidity05Pct = 0,
               BidLiquidity2Pct = 0, AskLiquidity2Pct = 0,
               BidLiquidity10Pct = 0, AskLiquidity10Pct = 0,
               DeltaLiquidity05Pct = 0, DeltaLiquidity2Pct = 0, DeltaLiquidity10Pct = 0,
               TotalBidsQty = 0, TotalAsksQty = 0, TotalDelta = 0\<rparr>,
      bestBid = 0, bestAsk = 0, bidLevels = 0, askLevels = 0\<rparr>"

text \<open>
  \<^verbatim>\<open>decimal.NewFromString\<close> belongs to the decimal library. The engine is modelled for an
  arbitrary parser, its first argument: \<open>Some d\<close> for a string that denotes \<open>d\<close>, \<open>None\<close>
  for an error. Where the Go code drops the error (\<^verbatim>\<open>qty, _ := decimal.NewFromString(s)\<close>)
  the value it keeps on an error is the zero \<^verbatim>\<open>Decimal{}\<close>, which compares as 0.
\<close>

type_synonym parser = "string \<Rightarrow> decimal option"

definition ignore_error :: "decimal option \<Rightarrow> decimal" where
  "ignore_error r = (case r of Some d \<Rightarrow> d | None \<Rightarrow> 0)"

text \<open>The sum of the quantities of the levels that satisfy a condition, as one loop keeps it.\<close>

definition sumQuantity ::
  "(decimal PriceLevel \<Rightarrow> bool) \<Rightarrow> (string \<times> decimal PriceLevel) list \<Rightarrow> decimal" where
  "sumQuantity cond levels =
     fold (\<lambda>(key, level) total. if cond level then total + Quantity level else total) levels 0"

definition calculateLiquidityDepth :: "OrderBook \<Rightarrow> OrderBook" where
  "calculateLiquidityDepth ob =
     (if bestBid ob = 0 \<or> bestAsk ob = 0 then
        ob\<lparr>stats := (stats ob)
          \<lparr>BidLiquidity05Pct := 0, AskLiquidity05Pct := 0,
           BidLiquidity2Pct := 0, AskLiquidity2Pct := 0,
           BidLiquidity10Pct := 0, AskLiquidity10Pct := 0,
           DeltaLiquidity05Pct := 0, DeltaLiquidity2Pct := 0, DeltaLiquidity10Pct := 0,
           TotalBidsQty := 0, TotalAsksQty := 0\<rparr>\<rparr>
      else
        let midPrice = dec_Div (bestBid ob + bestAsk ob) 2;
            threshold05Pct = midPrice * (5 / 1000);
            threshold2Pct = midPrice * (2 / 100);
            threshold10Pct = midPrice * (10 / 100);
            minBid05Pct = midPrice - threshold05Pct;
            minBid2Pct = midPrice - threshold2Pct;
            minBid10Pct = midPrice - threshold10Pct;
            totalBidsQty = sumQuantity (\<lambda>level. True) (bids ob);
            bidLiq05 = sumQuantity (\<lambda>level. minBid05Pct \<le> Price level) (bids ob);
            bidLiq2 = sumQuantity (\<lambda>level. minBid2Pct \<le> Price level) (bids ob);
            bidLiq10 = sumQuantity (\<lambda>level. minBid10Pct \<le> Price level) (bids ob);
            maxAsk05Pct = midPrice + threshold05Pct;
            maxAsk2Pct = midPrice + threshold2Pct;
            maxAsk10Pct = midPrice + threshold10Pct;
            totalAsksQty = sumQuantity (\<lambda>level. True) (asks ob);
            askLiq05 = sumQuantity (\<lambda>level. Price level \<le> maxAsk05Pct) (asks ob);
            askLiq2 = sumQuantity (\<lambda>level. Price level \<le> maxAsk2Pct) (asks ob);
            askLiq10 = sumQuantity (\<lambda>level. Price level \<le> maxAsk10Pct) (asks ob)
        in ob\<lparr>stats := (stats ob)
          \<lparr>BidLiquidity05Pct := bidLiq05, AskLiquidity05Pct := askLiq05,
           BidLiquidity2Pct := bidLiq2, AskLiquidity2Pct := askLiq2,
           BidLiquidity10Pct := bidLiq10, AskLiquidity10Pct := askLiq10,
           TotalBidsQty := totalBidsQty, TotalAsksQty := totalAsksQty,
           DeltaLiquidity05Pct := bidLiq05 - askLiq05,
           DeltaLiquidity2Pct := bidLiq2 - askLiq2,
           DeltaLiquidity10Pct := bidLiq10 - askLiq10,
           TotalDelta := totalBidsQty - totalAsksQty\<rparr>\<rparr>)"

definition updateCachedStats :: "OrderBook \<Rightarrow> OrderBook" where
  "updateCachedStats ob =
     calculateLiquidityDepth
       (ob\<lparr>stats := (stats ob)
          \<lparr>BidLevels := bidLevels ob,
           AskLevels := askLevels ob,
           BufferedEvents := length (eventBuffer ob),
           BestBid := bestBid ob,
           BestAsk := bestAsk ob,
           Spread := (if bestBid ob \<noteq> 0 \<and> bestAsk ob \<noteq> 0 \<and> bestBid ob < bestAsk ob
                      then bestAsk ob - bestBid ob else 0)\<rparr>\<rparr>)"

text \<open>The two scans for a best price, started from a given value.\<close>

definition scanBestBid :: "(string \<times> decimal PriceLevel) list \<Rightarrow> decimal \<Rightarrow> decimal" where
  "scanBestBid levels start =
     fold (\<lambda>(key, level) best. if best < Price level then Price level else best) levels start"

definition scanBestAsk :: "(string \<times> decimal PriceLevel) list \<Rightarrow> decimal \<Rightarrow> decimal" where
  "scanBestAsk levels start =
     fold (\<lambda>(key, level) best. if Price level < best then Price level else best) levels start"

definition recalculateBestBid :: "OrderBook \<Rightarrow> OrderBook" where
  "recalculateBestBid ob = ob\<lparr>bestBid := scanBestBid (bids ob) 0\<rparr>"

definition recalculateBestAsk :: "OrderBook \<Rightarrow> OrderBook" where
  "recalculateBestAsk ob =
     (let best = scanBestAsk (asks ob) 999999999
      in ob\<lparr>bestAsk := (if best = 999999999 then 0 else best)\<rparr>)"

definition updateStats :: "OrderBook \<Rightarrow> OrderBook" where
  "updateStats ob =
     (let ob1 = ob\<lparr>bidLevels := length (bids ob), askLevels := length (asks ob),
                   bestBid := 0, bestAsk := 999999999\<rparr>;
          ob2 = (if 0 < length (bids ob1) then ob1\<lparr>bestBid := scanBestBid (bids ob1) (bestBid ob1)\<rparr>
                 else ob1);
          ob3 = (if 0 < length (asks ob2) then
                   (let best = scanBestAsk (asks ob2) (bestAsk ob2)
                    in ob2\<lparr>bestAsk := (if best = 999999999 then 0 else best)\<rparr>)
                 else ob2\<lparr>bestAsk := 0\<rparr>)
      in updateCachedStats ob3)"

text \<open>
  The bodies of the two loops of \<^verbatim>\<open>applyUpdate\<close>. The state of a loop is the book and the
  flag \<^verbatim>\<open>bestBidChanged\<close> (or \<^verbatim>\<open>bestAskChanged\<close>).
\<close>

definition applyBid :: "parser \<Rightarrow> string PriceLevel \<Rightarrow> OrderBook \<times> bool \<Rightarrow> OrderBook \<times> bool" where
  "applyBid NewFromString bid state =
     (let ob = fst state;
          bestBidChanged = snd state;
          price = Price bid;
          qty = ignore_error (NewFromString (Quantity bid));
          priceDecimal = ignore_error (NewFromString price)
      in if qty = 0 then
           (if map_of (bids ob) price \<noteq> None then
              (ob\<lparr>bids := AList.delete price (bids ob)\<rparr>,
               if priceDecimal = bestBid ob then True else bestBidChanged)
            else (ob, bestBidChanged))
         else
           (let ob' = ob\<lparr>bids := AList.update price \<lparr>Price = priceDecimal, Quantity = qty\<rparr> (bids ob)\<rparr>
            in (if bestBid ob' < priceDecimal then ob'\<lparr>bestBid := priceDecimal\<rparr> else ob',
                bestBidChanged)))"

definition applyAsk :: "parser \<Rightarrow> string PriceLevel \<Rightarrow> OrderBook \<times> bool \<Rightarrow> OrderBook \<times> bool" where
  "applyAsk NewFromString ask state =
     (let ob = fst state;
          bestAskChanged = snd state;
          price = Price ask;
          qty = ignore_error (NewFromString (Quantity ask));
          priceDecimal = ignore_error (NewFromString price)
      in if qty = 0 then
           (if map_of (asks ob) price \<noteq> None then
              (ob\<lparr>asks := AList.delete price (asks ob)\<rparr>,
               if priceDecimal = bestAsk ob then True else bestAskChanged)
            else (ob, bestAskChanged))
         else
           (let ob' = ob\<lparr>asks := AList.update price \<lparr>Price = priceDecimal, Quantity = qty\<rparr> (asks ob)\<rparr>
            in (if priceDecimal < bestAsk ob' then ob'\<lparr>bestAsk := priceDecimal\<rparr> else ob',
                bestAskChanged)))"

definition applyUpdate :: "parser \<Rightarrow> OrderBook \<Rightarrow> DepthUpdate \<Rightarrow> OrderBook" where
  "applyUpdate NewFromString ob update =
     (let (ob1, bestBidChanged) = fold (applyBid NewFromString) (Bids update) (ob, False);
          (ob2, bestAskChanged) = fold (applyAsk NewFromString) (Asks update) (ob1, False);
          ob3 = (if bestBidChanged then recalculateBestBid ob2 else ob2);
          ob4 = (if bestAskChanged then recalculateBestAsk ob3 else ob3);
          ob5 = ob4\<lparr>lastUpdateID := FinalUpdateID update\<rparr>;
          ob6 = ob5\<lparr>stats := (stats ob5)\<lparr>EventsProcessed := EventsProcessed (stats ob5) + 1\<rparr>\<rparr>;
          ob7 = ob6\<lparr>stats := (stats ob6)\<lparr>LastEventTime := EventTime update\<rparr>\<rparr>
      in updateCachedStats ob7)"

text \<open>
  \<^verbatim>\<open>LoadSnapshot\<close> changes the book in place and returns an error or nil; the model
  returns the error, if any, together with the book as the call leaves it. The two loops
  stop at the first string that does not parse.
\<close>

datatype load_error =
    InvalidBidPrice string | InvalidBidQuantity string
  | InvalidAskPrice string | InvalidAskQuantity string

fun loadBids :: "parser \<Rightarrow> string PriceLevel list \<Rightarrow> OrderBook \<Rightarrow> load_error option \<times> OrderBook" where
  "loadBids NewFromString [] ob = (None, ob)"
| "loadBids NewFromString (bid # rest) ob =
     (case NewFromString (Price bid) of
        None \<Rightarrow> (Some (InvalidBidPrice (Price bid)), ob)
      | Some price \<Rightarrow>
          (case NewFromString (Quantity bid) of
             None \<Rightarrow> (Some (InvalidBidQuantity (Quantity bid)), ob)
           | Some qty \<Rightarrow>
               loadBids NewFromString rest
                 (if qty \<noteq> 0 then
                    (let ob' = ob\<lparr>bids := AList.update (Price bid)
                                            \<lparr>Price = price, Quantity = qty\<rparr> (bids ob)\<rparr>
                     in if bestBid ob' < price then ob'\<lparr>bestBid := price\<rparr> else ob')
                  else ob)))"

fun loadAsks :: "parser \<Rightarrow> string PriceLevel list \<Rightarrow> OrderBook \<Rightarrow> load_error option \<times> OrderBook" where
  "loadAsks NewFromString [] ob = (None, ob)"
| "loadAsks NewFromString (ask # rest) ob =
     (case NewFromString (Price ask) of
        None \<Rightarrow> (Some (InvalidAskPrice (Price ask)), ob)
      | Some price \<Rightarrow>
          (case NewFromString (Quantity ask) of
             None \<Rightarrow> (Some (InvalidAskQuantity (Quantity ask)), ob)
           | Some qty \<Rightarrow>
               loadAsks NewFromString rest
                 (if qty \<noteq> 0 then
                    (let ob' = ob\<lparr>asks := AList.update (Price ask)
                                            \<lparr>Price = price, Quantity = qty\<rparr> (asks ob)\<rparr>
                     in if price < bestAsk ob' then ob'\<lparr>bestAsk := price\<rparr> else ob')
                  else ob)))"

definition LoadSnapshot :: "parser \<Rightarrow> OrderBook \<Rightarrow> Snapshot \<Rightarrow> load_error option \<times> OrderBook" where
  "LoadSnapshot NewFromString ob snapshot =
     (let ob1 = ob\<lparr>lastUpdateID := LastUpdateID snapshot, bids := [], asks := [],
                   bestBid := 0, bestAsk := 999999999\<rparr>
      in case loadBids NewFromString (Snapshot.Bids snapshot) ob1 of
           (Some err, ob2) \<Rightarrow> (Some err, ob2)
         | (None, ob2) \<Rightarrow>
             (case loadAsks NewFromString (Snapshot.Asks snapshot) ob2 of
                (Some err, ob3) \<Rightarrow> (Some err, ob3)
              | (None, ob3) \<Rightarrow> (None, updateStats ob3)))"

definition HandleDepthUpdate :: "parser \<Rightarrow> OrderBook \<Rightarrow> DepthUpdate \<Rightarrow> OrderBook" where
  "HandleDepthUpdate NewFromString ob update =
     (if \<not> initialized ob then ob\<lparr>eventBuffer := eventBuffer ob @ [update]\<rparr>
      else
        let expectedPrevID = lastUpdateID ob
        in if PrevUpdateID update \<noteq> expectedPrevID then
             (if FirstUpdateID update \<le>s expectedPrevID + 1 \<and> expectedPrevID <s FinalUpdateID update
              then applyUpdate NewFromString ob update
              else ob\<lparr>eventBuffer := eventBuffer ob @ [update]\<rparr>)
           else applyUpdate NewFromString ob update)"

text \<open>
  In \<^verbatim>\<open>ProcessBufferedEvents\<close> the first loop does not change \<^verbatim>\<open>lastUpdateID\<close>, so it is a
  filter. \<^verbatim>\<open>sort.Slice\<close> orders by \<^verbatim>\<open>FirstUpdateID\<close> and promises no order among equal
  keys; the model sorts stably.
\<close>

definition validEvent :: "OrderBook \<Rightarrow> DepthUpdate \<Rightarrow> bool" where
  "validEvent ob event =
     (if FinalUpdateID event \<le>s lastUpdateID ob then False
      else FirstUpdateID event \<le>s lastUpdateID ob + 1 \<and> lastUpdateID ob <s FinalUpdateID event)"

definition ProcessBufferedEvents :: "parser \<Rightarrow> OrderBook \<Rightarrow> OrderBook" where
  "ProcessBufferedEvents NewFromString ob =
     (let validEvents = filter (validEvent ob) (eventBuffer ob)
      in if length validEvents = 0 then ob\<lparr>eventBuffer := [], initialized := True\<rparr>
         else
           let sorted = sort_key (\<lambda>event. sint (FirstUpdateID event)) validEvents;
               ob1 = ob\<lparr>eventBuffer := []\<rparr>;
               ob2 = fold (\<lambda>event ob. if FirstUpdateID event \<le>s lastUpdateID ob + 1
                                        then applyUpdate NewFromString ob event else ob)
                       sorted ob1
           in ob2\<lparr>initialized := True\<rparr>)"


section \<open>The stats message (internal/websocket/server.go)\<close>


section \<open>A parser for plain literals\<close>

text \<open>
  To run the engine on concrete strings the examples use a parser for the literals
  \<^verbatim>\<open>digits\<close> and \<^verbatim>\<open>digits.digits\<close>, on which it returns the value that
  \<^verbatim>\<open>decimal.NewFromString\<close> returns; every other string is an error.
\<close>

definition digit :: "char \<Rightarrow> nat option" where
  "digit c = map_of [(CHR ''0'', 0), (CHR ''1'', 1), (CHR ''2'', 2), (CHR ''3'', 3), (CHR ''4'', 4),
                     (CHR ''5'', 5), (CHR ''6'', 6), (CHR ''7'', 7), (CHR ''8'', 8), (CHR ''9'', 9)] c"

fun digits :: "string \<Rightarrow> nat \<Rightarrow> nat option" where
  "digits [] n = Some n"
| "digits (c # cs) n = (case digit c of None \<Rightarrow> None | Some d \<Rightarrow> digits cs (10 * n + d))"

definition plain_literal :: parser where
  "plain_literal s =
     (let intPart = takeWhile (\<lambda>c. c \<noteq> CHR ''.'') s;
          rest = dropWhile (\<lambda>c. c \<noteq> CHR ''.'') s;
          fracPart = (if rest = [] then [] else tl rest)
      in if intPart @ fracPart = [] then None
         else case digits (intPart @ fracPart) 0 of
                None \<Rightarrow> None
              | Some n \<Rightarrow> Some (of_nat n / 10 ^ length fracPart))"

section \<open>The operations in the words of the specification\<close>

text \<open>
  How the specification describes the merge of the levels of an update into one side of
  the book: for each level, if its quantity is zero the price is deleted, otherwise the
  level is inserted or overwritten. The side is a map from price string to level.
\<close>

definition spec_merge ::
  "parser \<Rightarrow> string PriceLevel list \<Rightarrow> (string \<rightharpoonup> decimal PriceLevel) \<Rightarrow> (string \<rightharpoonup> decimal PriceLevel)" where
  "spec_merge NewFromString levels m =
     fold (\<lambda>level m.
             if ignore_error (NewFromString (Quantity level)) = 0 then m(Price level := None)
             else m(Price level \<mapsto> \<lparr>Price = ignore_error (NewFromString (Price level)),
                                     Quantity = ignore_error (NewFromString (Quantity level))\<rparr>))
          levels m"

text \<open>
  A snapshot level parses when both its strings do.
\<close>

definition parses :: "parser \<Rightarrow> string PriceLevel \<Rightarrow> bool" where
  "parses NewFromString level \<longleftrightarrow>
     NewFromString (Price level) \<noteq> None \<and> NewFromString (Quantity level) \<noteq> None"

text \<open>
  How the specification describes the loading of one side of a snapshot: the levels are
  re-keyed by their price string and zero-quantity entries are dropped.
\<close>

definition spec_rekey_step ::
  "parser \<Rightarrow> string PriceLevel \<Rightarrow> (string \<times> decimal PriceLevel) list \<Rightarrow> (string \<times> decimal PriceLevel) list" where
  "spec_rekey_step NewFromString level al =
     (if ignore_error (NewFromString (Quantity level)) \<noteq> 0
      then AList.update (Price level)
             \<lparr>Price = ignore_error (NewFromString (Price level)),
              Quantity = ignore_error (NewFromString (Quantity level))\<rparr> al
      else al)"

definition spec_rekey :: "parser \<Rightarrow> string PriceLevel list \<Rightarrow> (string \<times> decimal PriceLevel) list" where
  "spec_rekey NewFromString levels = fold (spec_rekey_step NewFromString) levels []"

section \<open>Example inputs\<close>

text \<open>
  Concrete updates and snapshots, and the run of scenario E1 of the specification: three
  events are fed to a new book, which buffers them, then a snapshot with
  \<open>lastUpdateId = 100\<close> and best bid 50000 is loaded and the buffer processed.
\<close>

definition example_update ::
  "int64 \<Rightarrow> int64 \<Rightarrow> int64 \<Rightarrow> string PriceLevel list \<Rightarrow> string PriceLevel list \<Rightarrow> DepthUpdate" where
  "example_update firstID finalID prevID bs as =
     \<lparr>Exchange = ''binancef'', Symbol = ''BTCUSDT'', EventTime = 0,
      FirstUpdateID = firstID, FinalUpdateID = finalID, PrevUpdateID = prevID, Bids = bs, Asks = as\<rparr>"

definition example_snapshot :: "int64 \<Rightarrow> string PriceLevel list \<Rightarrow> string PriceLevel list \<Rightarrow> Snapshot" where
  "example_snapshot lastID bs as =
     \<lparr>Snapshot.Exchange = ''binancef'', Snapshot.Symbol = ''BTCUSDT'', LastUpdateID = lastID,
      Snapshot.Bids = bs, Snapshot.Asks = as, Timestamp = 0\<rparr>"

definition E1_snapshot :: Snapshot where
  "E1_snapshot = example_snapshot 100 [\<lparr>Price = ''50000'', Quantity = ''1''\<rparr>]
                                      [\<lparr>Price = ''50001'', Quantity = ''2''\<rparr>]"

definition E1_events :: "DepthUpdate list" where
  "E1_events =
     [example_update 97 98 96 [\<lparr>Price = ''49998'', Quantity = ''1''\<rparr>] [],
      example_update 99 101 98 [\<lparr>Price = ''49999'', Quantity = ''3''\<rparr>] [],
      example_update 102 102 101 [\<lparr>Price = ''49997'', Quantity = ''5''\<rparr>] []]"

definition E1_buffered :: OrderBook where
  "E1_buffered = fold (\<lambda>update ob. HandleDepthUpdate plain_literal ob update) E1_events New"

definition E1_loaded :: OrderBook where
  "E1_loaded = snd (LoadSnapshot plain_literal E1_buffered E1_snapshot)"

text \<open>
  The book of scenario E1 after \<^verbatim>\<open>ProcessBufferedEvents\<close>.
\<close>

definition E1_processed :: OrderBook where
  "E1_processed = ProcessBufferedEvents plain_literal E1_loaded"

text \<open>
  A book loaded from a snapshot of a venue without sequence ids, and initialized.
\<close>

definition zero_id_book :: OrderBook where
  "zero_id_book =
     ProcessBufferedEvents plain_literal
       (snd (LoadSnapshot plain_literal New
          (example_snapshot 0 [\<lparr>Price = ''100'', Quantity = ''1''\<rparr>]
                              [\<lparr>Price = ''101'', Quantity = ''2''\<rparr>])))"

text \<open>
  A snapshot whose second bid has a price that is no number.
\<close>

definition bad_snapshot :: Snapshot where
  "bad_snapshot = example_snapshot 200
     [\<lparr>Price = ''50002'', Quantity = ''1''\<rparr>, \<lparr>Price = ''oops'', Quantity = ''1''\<rparr>,
      \<lparr>Price = ''49999'', Quantity = ''2''\<rparr>]
     [\<lparr>Price = ''50003'', Quantity = ''1''\<rparr>]"

text \<open>
  An OKX adapter and a successful REST response with one bid and one ask.
\<close>

definition okx_exchange :: SpotExchange where
  "okx_exchange = \<lparr>symbol = ''BTCUSDT'', instId = ''BTC-USDT''\<rparr>"

definition okx_response :: "string \<Rightarrow> string \<Rightarrow> OrderBookResponse option" where
  "okx_response bidPrice askPrice =
     Some \<lparr>Code = ''0'', Msg = [],
           Data = [\<lparr>OrderBookData.Asks = [[askPrice, ''2'', ''0'', ''1'']],
                    OrderBookData.Bids = [[bidPrice, ''1'', ''0'', ''3'']],
                    Ts = ''1700000000000''\<rparr>]\<rparr>"

text \<open>
  A run on which the cached best ask is lost: a book with one bid and one ask, the update
  that removes the ask and the update that adds another ask.
\<close>

definition two_sided_snapshot :: Snapshot where
  "two_sided_snapshot = example_snapshot 100 [\<lparr>Price = ''100'', Quantity = ''1''\<rparr>]
                                             [\<lparr>Price = ''101'', Quantity = ''1''\<rparr>]"

definition two_sided_book :: OrderBook where
  "two_sided_book = ProcessBufferedEvents plain_literal (snd (LoadSnapshot plain_literal New two_sided_snapshot))"

definition ask_removed :: OrderBook where
  "ask_removed = HandleDepthUpdate plain_literal two_sided_book
                   (example_update 101 101 100 [] [\<lparr>Price = ''101'', Quantity = ''0''\<rparr>])"

definition ask_added :: OrderBook where
  "ask_added = HandleDepthUpdate plain_literal ask_removed
                 (example_update 102 102 101 [] [\<lparr>Price = ''102'', Quantity = ''1''\<rparr>])"

text \<open>
  The stats agree with the cached best prices, and their nine band fields are zero when a
  best price is zero: what a refresh of the stats establishes.
\<close>

definition stats_fresh :: "OrderBook \<Rightarrow> bool" where
  "stats_fresh ob \<longleftrightarrow>
     BestBid (stats ob) = bestBid ob \<and> BestAsk (stats ob) = bestAsk ob \<and>
     (bestBid ob = 0 \<or> bestAsk ob = 0 \<longrightarrow>
        BidLiquidity05Pct (stats ob) = 0 \<and> AskLiquidity05Pct (stats ob) = 0 \<and>
        DeltaLiquidity05Pct (stats ob) = 0 \<and>
        BidLiquidity2Pct (stats ob) = 0 \<and> AskLiquidity2Pct (stats ob) = 0 \<and>
        DeltaLiquidity2Pct (stats ob) = 0 \<and>
        BidLiquidity10Pct (stats ob) = 0 \<and> AskLiquidity10Pct (stats ob) = 0 \<and>
        DeltaLiquidity10Pct (stats ob) = 0)"




text \<open>
  A book loaded from the snapshot of the OKX adapter and initialized, and the book after
  the update of the next poll, whose response holds the bid 99 in place of the bid 100.
\<close>

definition okx_book :: OrderBook where
  "okx_book =
     (case GetSnapshot okx_exchange (okx_response ''100'' ''101'') 5 of
        Inr snapshot \<Rightarrow>
          ProcessBufferedEvents plain_literal (snd (LoadSnapshot plain_literal New snapshot))
      | Inl err \<Rightarrow> New)"

definition okx_polled :: OrderBook where
  "okx_polled =
     (case poll okx_exchange (okx_response ''99'' ''101'') 6 of
        Some update \<Rightarrow> HandleDepthUpdate plain_literal okx_book update
      | None \<Rightarrow> okx_book)"

section \<open>Properties of the decimal operations\<close>

lemma floor_rat_numeral: "\<lfloor>numeral a / numeral b :: rat\<rfloor> = numeral a div numeral b"
  using floor_divide_of_int_eq [of "numeral a" "numeral b", where ?'a = rat] by simp

lemma floor_rat_neg_numeral: "\<lfloor>- (numeral a / numeral b) :: rat\<rfloor> = - numeral a div numeral b"
  using floor_divide_of_int_eq [of "- numeral a" "numeral b", where ?'a = rat] by simp

lemmas dec_eval = dec_Div_def dec_Floor_def dec_Ceil_def DivisionPrecision_def Let_def ceiling_def
  floor_rat_numeral floor_rat_neg_numeral

lemmas agg_eval = dec_eval roundToTickBid_def roundToTickAsk_def tickMap_add_def
  AggregateBids_def AggregateAsks_def

lemma dec_Div_exact:
  assumes "frac (d / d2 * 10 ^ 16) = 0"
  shows "dec_Div d d2 = d / d2"
proof -
  define x where "x = d / d2 * 10 ^ 16"
  from assms obtain n where n: "x = of_int n"
    unfolding x_def frac_eq_0_iff Ints_def by auto
  have "\<lfloor>\<bar>x\<bar> + 1 / 2\<rfloor> = \<bar>n\<bar>"
    unfolding n by (rule floor_unique) (simp_all flip: of_int_abs)
  then have "sgn x * of_int \<lfloor>\<bar>x\<bar> + 1 / 2\<rfloor> = x"
    unfolding n by (simp only: of_int_abs sgn_mult_abs)
  then have "dec_Div d d2 = x / 10 ^ 16"
    by (simp add: dec_Div_def DivisionPrecision_def Let_def x_def)
  then show ?thesis by (simp add: x_def)
qed

lemma dec_Div_multiple:
  assumes "t \<noteq> 0"
  shows "dec_Div (of_int n * t) t = of_int n"
proof -
  have "of_int n * t / t * 10 ^ 16 = (of_int (n * 10 ^ 16) :: rat)"
    using assms by simp
  then have "frac (of_int n * t / t * 10 ^ 16) = 0"
    by (simp only: frac_of_int)
  then have "dec_Div (of_int n * t) t = of_int n * t / t"
    by (rule dec_Div_exact)
  then show ?thesis using assms by simp
qed

lemma roundToTickBid_idem: "roundToTickBid a (roundToTickBid a p) = roundToTickBid a p"
  by (simp add: roundToTickBid_def Let_def dec_Floor_def dec_Div_multiple)

lemma roundToTickAsk_idem: "roundToTickAsk a (roundToTickAsk a p) = roundToTickAsk a p"
  by (simp add: roundToTickAsk_def Let_def dec_Ceil_def dec_Div_multiple)

lemma roundToTickBid_le:
  assumes "0 < currentTick a" and "frac (p / currentTick a * 10 ^ 16) = 0"
  shows "roundToTickBid a p \<le> p"
proof -
  have "of_int \<lfloor>p / currentTick a\<rfloor> \<le> p / currentTick a"
    by (rule of_int_floor_le)
  then have "of_int \<lfloor>p / currentTick a\<rfloor> * currentTick a \<le> p"
    by (rule pos_le_divide_eq [OF assms(1), THEN iffD1])
  then show ?thesis
    using assms by (simp add: roundToTickBid_def Let_def dec_Floor_def dec_Div_exact)
qed

lemma roundToTickAsk_ge:
  assumes "0 < currentTick a" and "frac (p / currentTick a * 10 ^ 16) = 0"
  shows "p \<le> roundToTickAsk a p"
proof -
  have "p / currentTick a \<le> of_int \<lceil>p / currentTick a\<rceil>"
    by (rule le_of_int_ceiling)
  then have "p \<le> of_int \<lceil>p / currentTick a\<rceil> * currentTick a"
    by (rule pos_divide_le_eq [OF assms(1), THEN iffD1])
  then show ?thesis
    using assms by (simp add: roundToTickAsk_def Let_def dec_Ceil_def dec_Div_exact)
qed

section \<open>Properties of the aggregation\<close>

lemma tickMap_add_keys: "fst ` set (tickMap_add k level m) = insert k (fst ` set m)"
  by (simp add: tickMap_add_def dom_update split: option.splits)

lemma tickMap_add_distinct: "distinct (map fst m) \<Longrightarrow> distinct (map fst (tickMap_add k level m))"
  by (simp add: tickMap_add_def distinct_update split: option.splits)

lemma tickMap_add_price:
  assumes "\<forall>(k', l) \<in> set m. Price l = k'"
  shows "\<forall>(k', l) \<in> set (tickMap_add k level m). Price l = k'"
proof -
  have upd: "\<forall>(k', l) \<in> set (AList.update k v m). Price l = k'" if "Price v = k" for v
  proof -
    have "set (AList.update k v m) \<subseteq> insert (k, v) (set m)"
      by (induction m) auto
    with assms that show ?thesis by auto
  qed
  show ?thesis
    unfolding tickMap_add_def by (cases "map_of m k"; simp; rule upd; simp)
qed

lemma fold_add_keys:
  "fst ` set (fold (\<lambda>level tickMap. tickMap_add (r (Price level)) level tickMap) levels m)
     = fst ` set m \<union> r ` Price ` set levels"
  by (induction levels arbitrary: m) (auto simp: tickMap_add_keys)

lemma fold_add_distinct:
  "distinct (map fst m) \<Longrightarrow>
   distinct (map fst (fold (\<lambda>level tickMap. tickMap_add (r (Price level)) level tickMap) levels m))"
  by (induction levels arbitrary: m) (auto simp: tickMap_add_distinct)

lemma fold_add_price:
  "\<forall>(k', l) \<in> set m. Price l = k' \<Longrightarrow>
   \<forall>(k', l) \<in> set (fold (\<lambda>level tickMap. tickMap_add (r (Price level)) level tickMap) levels m).
      Price l = k'"
proof (induction levels arbitrary: m)
  case Nil
  then show ?case by simp
next
  case (Cons level levels)
  show ?case
    unfolding fold_simps
    by (rule Cons.IH) (rule tickMap_add_price [OF Cons.prems])
qed

lemma update_new_key: "k \<notin> fst ` set al \<Longrightarrow> AList.update k v al = al @ [(k, v)]"
  by (induction al) auto

lemma fold_add_fixed:
  assumes "distinct (map Price ys)" and "\<forall>l \<in> set ys. r (Price l) = Price l"
    and "Price ` set ys \<inter> fst ` set m = {}"
  shows "fold (\<lambda>level tickMap. tickMap_add (r (Price level)) level tickMap) ys m
           = m @ map (\<lambda>l. (Price l, l)) ys"
  using assms
proof (induction ys arbitrary: m)
  case Nil
  then show ?case by simp
next
  case (Cons y ys)
  from Cons.prems have new: "Price y \<notin> fst ` set m" by auto
  then have "map_of m (Price y) = None"
    by (simp add: map_of_eq_None_iff)
  with new Cons.prems have step: "tickMap_add (r (Price y)) y m = m @ [(Price y, y)]"
    by (simp add: tickMap_add_def update_new_key)
  have "fold (\<lambda>level tickMap. tickMap_add (r (Price level)) level tickMap) ys (m @ [(Price y, y)])
          = (m @ [(Price y, y)]) @ map (\<lambda>l. (Price l, l)) ys"
    using Cons.prems by (intro Cons.IH) auto
  with step show ?case by simp
qed

lemma fold_add_map_fst:
  "map Price (map snd (fold (\<lambda>level tickMap. tickMap_add (r (Price level)) level tickMap) levels []))
     = map fst (fold (\<lambda>level tickMap. tickMap_add (r (Price level)) level tickMap) levels [])"
proof -
  have "\<forall>(k', l) \<in> set (fold (\<lambda>level tickMap. tickMap_add (r (Price level)) level tickMap) levels []).
          Price l = k'"
    by (rule fold_add_price) simp
  then show ?thesis by auto
qed

lemma fold_add_prices:
  "Price ` set (map snd (fold (\<lambda>level tickMap. tickMap_add (r (Price level)) level tickMap) levels []))
     = r ` Price ` set levels"
proof -
  have "Price ` set (map snd (fold (\<lambda>level tickMap. tickMap_add (r (Price level)) level tickMap) levels []))
          = set (map Price (map snd (fold (\<lambda>level tickMap. tickMap_add (r (Price level)) level tickMap) levels [])))"
    by (simp only: set_map)
  also have "\<dots> = fst ` set (fold (\<lambda>level tickMap. tickMap_add (r (Price level)) level tickMap) levels [])"
    by (simp only: fold_add_map_fst set_map)
  also have "\<dots> = r ` Price ` set levels"
    by (simp add: fold_add_keys)
  finally show ?thesis .
qed

lemma fold_add_distinct_prices:
  "distinct (map Price (map snd (fold (\<lambda>level tickMap. tickMap_add (r (Price level)) level tickMap) levels [])))"
  by (simp only: fold_add_map_fst) (rule fold_add_distinct, simp)

lemma aggregate_reordered:
  fixes out :: "decimal PriceLevel list"
  assumes idem: "\<And>p. r (r p) = r p"
    and out: "out = (if levels = [] then levels
                     else map snd (fold (\<lambda>level tickMap. tickMap_add (r (Price level)) level tickMap) levels []))"
    and ys: "mset ys = mset out"
  shows "(if ys = [] then ys
          else map snd (fold (\<lambda>level tickMap. tickMap_add (r (Price level)) level tickMap) ys [])) = ys"
proof (cases "levels = []")
  case True
  with out ys show ?thesis by simp
next
  case False
  with out have out': "out = map snd (fold (\<lambda>level tickMap. tickMap_add (r (Price level)) level tickMap) levels [])"
    by simp
  have "distinct (map Price out)"
    unfolding out' by (rule fold_add_distinct_prices)
  moreover from ys have "mset (map Price ys) = mset (map Price out)"
    by simp
  ultimately have d: "distinct (map Price ys)"
    by (rule mset_eq_imp_distinct_iff [THEN iffD2, rotated])
  have prices: "Price ` set out = r ` Price ` set levels"
    unfolding out' by (rule fold_add_prices)
  from ys have same: "set ys = set out"
    by (rule mset_eq_setD)
  have f: "\<forall>l \<in> set ys. r (Price l) = Price l"
  proof
    fix l assume "l \<in> set ys"
    with same prices have "Price l \<in> r ` Price ` set levels" by blast
    then obtain p where "Price l = r p" by blast
    then show "r (Price l) = Price l" by (simp only: idem)
  qed
  have "fold (\<lambda>level tickMap. tickMap_add (r (Price level)) level tickMap) ys []
          = [] @ map (\<lambda>l. (Price l, l)) ys"
    using d f by (intro fold_add_fixed) auto
  then show ?thesis by (simp add: comp_def)
qed

text \<open>
  Within the precision of \<^verbatim>\<open>Div\<close> the rounding is as documented: for a positive tick and
  a non-empty list of levels whose quotients price / tick have at most 16 digits after
  the decimal point, the highest bid bucket is at most the highest input bid price and the
  lowest ask bucket is at least the lowest input ask price.
\<close>

theorem aggregation_within_best_prices:
  assumes "0 < currentTick a" and "levels \<noteq> []"
    and "\<forall>l \<in> set levels. frac (Price l / currentTick a * 10 ^ 16) = 0"
  shows "Max (Price ` set (AggregateBids a levels)) \<le> Max (Price ` set levels) \<and>
         Min (Price ` set levels) \<le> Min (Price ` set (AggregateAsks a levels))"
proof
  have b: "Price ` set (AggregateBids a levels) = roundToTickBid a ` Price ` set levels"
    using assms(2) by (simp only: AggregateBids_def if_False fold_add_prices)
  have "roundToTickBid a p \<le> Max (Price ` set levels)" if "p \<in> Price ` set levels" for p
  proof -
    from that assms have "roundToTickBid a p \<le> p"
      by (auto intro: roundToTickBid_le)
    also from that have "p \<le> Max (Price ` set levels)"
      by (intro Max_ge) auto
    finally show ?thesis .
  qed
  with assms(2) show "Max (Price ` set (AggregateBids a levels)) \<le> Max (Price ` set levels)"
    unfolding b by (intro Max.boundedI) auto
  have c: "Price ` set (AggregateAsks a levels) = roundToTickAsk a ` Price ` set levels"
    using assms(2) by (simp only: AggregateAsks_def if_False fold_add_prices)
  have "Min (Price ` set levels) \<le> roundToTickAsk a p" if "p \<in> Price ` set levels" for p
  proof -
    from that have "Min (Price ` set levels) \<le> p"
      by (intro Min_le) auto
    also from that assms have "p \<le> roundToTickAsk a p"
      by (auto intro: roundToTickAsk_ge)
    finally show ?thesis .
  qed
  with assms(2) show "Min (Price ` set levels) \<le> Min (Price ` set (AggregateAsks a levels))"
    unfolding c by (intro Min.boundedI) auto
qed

section \<open>Properties of the engine\<close>

lemma calculateLiquidityDepth_fields [simp]:
  "bids (calculateLiquidityDepth ob) = bids ob"
  "asks (calculateLiquidityDepth ob) = asks ob"
  "lastUpdateID (calculateLiquidityDepth ob) = lastUpdateID ob"
  "eventBuffer (calculateLiquidityDepth ob) = eventBuffer ob"
  "initialized (calculateLiquidityDepth ob) = initialized ob"
  "bestBid (calculateLiquidityDepth ob) = bestBid ob"
  "bestAsk (calculateLiquidityDepth ob) = bestAsk ob"
  "bidLevels (calculateLiquidityDepth ob) = bidLevels ob"
  "askLevels (calculateLiquidityDepth ob) = askLevels ob"
  by (simp_all add: calculateLiquidityDepth_def Let_def)

lemma updateCachedStats_fields [simp]:
  "bids (updateCachedStats ob) = bids ob"
  "asks (updateCachedStats ob) = asks ob"
  "lastUpdateID (updateCachedStats ob) = lastUpdateID ob"
  "eventBuffer (updateCachedStats ob) = eventBuffer ob"
  "initialized (updateCachedStats ob) = initialized ob"
  "bestBid (updateCachedStats ob) = bestBid ob"
  "bestAsk (updateCachedStats ob) = bestAsk ob"
  "bidLevels (updateCachedStats ob) = bidLevels ob"
  "askLevels (updateCachedStats ob) = askLevels ob"
  by (simp_all add: updateCachedStats_def)

lemma applyBid_fields [simp]:
  "asks (fst (applyBid P l st)) = asks (fst st)"
  "lastUpdateID (fst (applyBid P l st)) = lastUpdateID (fst st)"
  "eventBuffer (fst (applyBid P l st)) = eventBuffer (fst st)"
  "initialized (fst (applyBid P l st)) = initialized (fst st)"
  "stats (fst (applyBid P l st)) = stats (fst st)"
  "bestAsk (fst (applyBid P l st)) = bestAsk (fst st)"
  by (simp_all add: applyBid_def Let_def)

lemma applyAsk_fields [simp]:
  "bids (fst (applyAsk P l st)) = bids (fst st)"
  "lastUpdateID (fst (applyAsk P l st)) = lastUpdateID (fst st)"
  "eventBuffer (fst (applyAsk P l st)) = eventBuffer (fst st)"
  "initialized (fst (applyAsk P l st)) = initialized (fst st)"
  "stats (fst (applyAsk P l st)) = stats (fst st)"
  "bestBid (fst (applyAsk P l st)) = bestBid (fst st)"
  by (simp_all add: applyAsk_def Let_def)

lemma applyBid_map:
  "map_of (bids (fst (applyBid P l st))) = spec_merge P [l] (map_of (bids (fst st)))"
  by (auto simp: applyBid_def spec_merge_def Let_def update_conv' delete_conv')

lemma applyAsk_map:
  "map_of (asks (fst (applyAsk P l st))) = spec_merge P [l] (map_of (asks (fst st)))"
  by (auto simp: applyAsk_def spec_merge_def Let_def update_conv' delete_conv')

lemma fold_applyBid_fields [simp]:
  "asks (fst (fold (applyBid P) ls st)) = asks (fst st)"
  "lastUpdateID (fst (fold (applyBid P) ls st)) = lastUpdateID (fst st)"
  "eventBuffer (fst (fold (applyBid P) ls st)) = eventBuffer (fst st)"
  "initialized (fst (fold (applyBid P) ls st)) = initialized (fst st)"
  "stats (fst (fold (applyBid P) ls st)) = stats (fst st)"
  "bestAsk (fst (fold (applyBid P) ls st)) = bestAsk (fst st)"
  by (induction ls arbitrary: st; simp)+

lemma fold_applyAsk_fields [simp]:
  "bids (fst (fold (applyAsk P) ls st)) = bids (fst st)"
  "lastUpdateID (fst (fold (applyAsk P) ls st)) = lastUpdateID (fst st)"
  "eventBuffer (fst (fold (applyAsk P) ls st)) = eventBuffer (fst st)"
  "initialized (fst (fold (applyAsk P) ls st)) = initialized (fst st)"
  "stats (fst (fold (applyAsk P) ls st)) = stats (fst st)"
  "bestBid (fst (fold (applyAsk P) ls st)) = bestBid (fst st)"
  by (induction ls arbitrary: st; simp)+

lemma spec_merge_Cons: "spec_merge P (l # ls) m = spec_merge P ls (spec_merge P [l] m)"
  by (simp add: spec_merge_def)

lemma fold_applyBid_map:
  "map_of (bids (fst (fold (applyBid P) ls st))) = spec_merge P ls (map_of (bids (fst st)))"
proof (induction ls arbitrary: st)
  case Nil
  show ?case by (simp add: spec_merge_def)
next
  case (Cons l ls)
  show ?case
    by (simp add: Cons.IH applyBid_map spec_merge_Cons [of P l ls])
qed

lemma fold_applyAsk_map:
  "map_of (asks (fst (fold (applyAsk P) ls st))) = spec_merge P ls (map_of (asks (fst st)))"
proof (induction ls arbitrary: st)
  case Nil
  show ?case by (simp add: spec_merge_def)
next
  case (Cons l ls)
  show ?case
    by (simp add: Cons.IH applyAsk_map spec_merge_Cons [of P l ls])
qed

lemma recalculate_fields [simp]:
  "bids (recalculateBestBid ob) = bids ob"
  "asks (recalculateBestBid ob) = asks ob"
  "lastUpdateID (recalculateBestBid ob) = lastUpdateID ob"
  "eventBuffer (recalculateBestBid ob) = eventBuffer ob"
  "initialized (recalculateBestBid ob) = initialized ob"
  "bids (recalculateBestAsk ob) = bids ob"
  "asks (recalculateBestAsk ob) = asks ob"
  "lastUpdateID (recalculateBestAsk ob) = lastUpdateID ob"
  "eventBuffer (recalculateBestAsk ob) = eventBuffer ob"
  "initialized (recalculateBestAsk ob) = initialized ob"
  by (simp_all add: recalculateBestBid_def recalculateBestAsk_def Let_def)

lemma applyUpdate_fields:
  "lastUpdateID (applyUpdate P ob u) = FinalUpdateID u"
  "eventBuffer (applyUpdate P ob u) = eventBuffer ob"
  "initialized (applyUpdate P ob u) = initialized ob"
  "map_of (bids (applyUpdate P ob u)) = spec_merge P (Bids u) (map_of (bids ob))"
  "map_of (asks (applyUpdate P ob u)) = spec_merge P (Asks u) (map_of (asks ob))"
proof -
  obtain ob1 c1 where s1: "fold (applyBid P) (Bids u) (ob, False) = (ob1, c1)"
    by (cases "fold (applyBid P) (Bids u) (ob, False)")
  obtain ob2 c2 where s2: "fold (applyAsk P) (Asks u) (ob1, False) = (ob2, c2)"
    by (cases "fold (applyAsk P) (Asks u) (ob1, False)")
  have f1: "ob1 = fst (fold (applyBid P) (Bids u) (ob, False))" by (simp add: s1)
  have f2: "ob2 = fst (fold (applyAsk P) (Asks u) (ob1, False))" by (simp add: s2)
  have b: "map_of (bids ob2) = spec_merge P (Bids u) (map_of (bids ob))"
    unfolding f2 by (simp add: f1 fold_applyBid_map)
  have a: "map_of (asks ob2) = spec_merge P (Asks u) (map_of (asks ob))"
    unfolding f2 by (simp add: fold_applyAsk_map) (simp add: f1)
  have e: "eventBuffer ob2 = eventBuffer ob" "initialized ob2 = initialized ob"
    unfolding f2 by (simp_all add: f1)
  show "lastUpdateID (applyUpdate P ob u) = FinalUpdateID u"
    "eventBuffer (applyUpdate P ob u) = eventBuffer ob"
    "initialized (applyUpdate P ob u) = initialized ob"
    "map_of (bids (applyUpdate P ob u)) = spec_merge P (Bids u) (map_of (bids ob))"
    "map_of (asks (applyUpdate P ob u)) = spec_merge P (Asks u) (map_of (asks ob))"
    by (simp_all add: applyUpdate_def s1 s2 Let_def a b e)
qed

lemma updateStats_fields [simp]:
  "bids (updateStats ob) = bids ob"
  "asks (updateStats ob) = asks ob"
  "lastUpdateID (updateStats ob) = lastUpdateID ob"
  "eventBuffer (updateStats ob) = eventBuffer ob"
  "initialized (updateStats ob) = initialized ob"
  by (simp_all add: updateStats_def Let_def)

lemma loadBids_fields [simp]:
  "asks (snd (loadBids P ls ob)) = asks ob"
  "lastUpdateID (snd (loadBids P ls ob)) = lastUpdateID ob"
  "eventBuffer (snd (loadBids P ls ob)) = eventBuffer ob"
  "initialized (snd (loadBids P ls ob)) = initialized ob"
  "stats (snd (loadBids P ls ob)) = stats ob"
  by (induction P ls ob rule: loadBids.induct; simp add: Let_def split: option.splits)+

lemma loadAsks_fields [simp]:
  "bids (snd (loadAsks P ls ob)) = bids ob"
  "lastUpdateID (snd (loadAsks P ls ob)) = lastUpdateID ob"
  "eventBuffer (snd (loadAsks P ls ob)) = eventBuffer ob"
  "initialized (snd (loadAsks P ls ob)) = initialized ob"
  "stats (snd (loadAsks P ls ob)) = stats ob"
  by (induction P ls ob rule: loadAsks.induct; simp add: Let_def split: option.splits)+

lemma loadBids_parsed:
  assumes "\<forall>l \<in> set ls. parses P l"
  shows "fst (loadBids P ls ob) = None"
    and "bids (snd (loadBids P ls ob)) = fold (spec_rekey_step P) ls (bids ob)"
  using assms
  by (induction P ls ob rule: loadBids.induct;
      auto simp: parses_def spec_rekey_step_def ignore_error_def Let_def split: option.splits)+

lemma loadAsks_parsed:
  assumes "\<forall>l \<in> set ls. parses P l"
  shows "fst (loadAsks P ls ob) = None"
    and "asks (snd (loadAsks P ls ob)) = fold (spec_rekey_step P) ls (asks ob)"
  using assms
  by (induction P ls ob rule: loadAsks.induct;
      auto simp: parses_def spec_rekey_step_def ignore_error_def Let_def split: option.splits)+

lemma loadBids_error:
  assumes "fst (loadBids P ls ob) = Some err"
  shows "\<exists>pre bad rest. ls = pre @ bad # rest \<and> (\<forall>l \<in> set pre. parses P l) \<and> \<not> parses P bad \<and>
           bids (snd (loadBids P ls ob)) = fold (spec_rekey_step P) pre (bids ob)"
  using assms
proof (induction P ls ob rule: loadBids.induct)
  case (1 P ob)
  then show ?case by simp
next
  case (2 P bid rest ob)
  show ?case
  proof (cases "parses P bid")
    case False
    then have "bids (snd (loadBids P (bid # rest) ob)) = bids ob"
      by (auto simp: parses_def split: option.splits)
    then have "bid # rest = [] @ bid # rest \<and> (\<forall>l \<in> set []. parses P l) \<and> \<not> parses P bid \<and>
        bids (snd (loadBids P (bid # rest) ob)) = fold (spec_rekey_step P) [] (bids ob)"
      using False by simp
    then show ?thesis by blast
  next
    case True
    then obtain price qty where pq: "P (Price bid) = Some price" "P (Quantity bid) = Some qty"
      by (auto simp: parses_def)
    define ob1 where "ob1 = (if qty \<noteq> 0 then
                    (let ob' = ob\<lparr>bids := AList.update (Price bid)
                                            \<lparr>Price = price, Quantity = qty\<rparr> (bids ob)\<rparr>
                     in if bestBid ob' < price then ob'\<lparr>bestBid := price\<rparr> else ob')
                  else ob)"
    have step: "loadBids P (bid # rest) ob = loadBids P rest ob1"
      by (simp add: pq ob1_def)
    have b1: "bids ob1 = spec_rekey_step P bid (bids ob)"
      by (simp add: ob1_def spec_rekey_step_def pq ignore_error_def Let_def)
    from "2.prems" step have "fst (loadBids P rest ob1) = Some err" by simp
    with "2.IH" [OF pq] obtain pre bad rest' where r:
      "rest = pre @ bad # rest'" "\<forall>l \<in> set pre. parses P l" "\<not> parses P bad"
      "bids (snd (loadBids P rest ob1)) = fold (spec_rekey_step P) pre (bids ob1)"
      unfolding ob1_def by blast
    have "bid # rest = (bid # pre) @ bad # rest'"
      using r(1) by simp
    moreover have "\<forall>l \<in> set (bid # pre). parses P l"
      using r(2) True by simp
    moreover have "bids (snd (loadBids P (bid # rest) ob)) = fold (spec_rekey_step P) (bid # pre) (bids ob)"
      unfolding step using r(4) b1 by simp
    ultimately show ?thesis
      using r(3) by blast
  qed
qed

lemma loadAsks_error:
  assumes "fst (loadAsks P ls ob) = Some err"
  shows "\<exists>pre bad rest. ls = pre @ bad # rest \<and> (\<forall>l \<in> set pre. parses P l) \<and> \<not> parses P bad \<and>
           asks (snd (loadAsks P ls ob)) = fold (spec_rekey_step P) pre (asks ob)"
  using assms
proof (induction P ls ob rule: loadAsks.induct)
  case (1 P ob)
  then show ?case by simp
next
  case (2 P ask rest ob)
  show ?case
  proof (cases "parses P ask")
    case False
    then have "asks (snd (loadAsks P (ask # rest) ob)) = asks ob"
      by (auto simp: parses_def split: option.splits)
    then have "ask # rest = [] @ ask # rest \<and> (\<forall>l \<in> set []. parses P l) \<and> \<not> parses P ask \<and>
        asks (snd (loadAsks P (ask # rest) ob)) = fold (spec_rekey_step P) [] (asks ob)"
      using False by simp
    then show ?thesis by blast
  next
    case True
    then obtain price qty where pq: "P (Price ask) = Some price" "P (Quantity ask) = Some qty"
      by (auto simp: parses_def)
    define ob1 where "ob1 = (if qty \<noteq> 0 then
                    (let ob' = ob\<lparr>asks := AList.update (Price ask)
                                            \<lparr>Price = price, Quantity = qty\<rparr> (asks ob)\<rparr>
                     in if price < bestAsk ob' then ob'\<lparr>bestAsk := price\<rparr> else ob')
                  else ob)"
    have step: "loadAsks P (ask # rest) ob = loadAsks P rest ob1"
      by (simp add: pq ob1_def)
    have b1: "asks ob1 = spec_rekey_step P ask (asks ob)"
      by (simp add: ob1_def spec_rekey_step_def pq ignore_error_def Let_def)
    from "2.prems" step have "fst (loadAsks P rest ob1) = Some err" by simp
    with "2.IH" [OF pq] obtain pre bad rest' where r:
      "rest = pre @ bad # rest'" "\<forall>l \<in> set pre. parses P l" "\<not> parses P bad"
      "asks (snd (loadAsks P rest ob1)) = fold (spec_rekey_step P) pre (asks ob1)"
      unfolding ob1_def by blast
    have "ask # rest = (ask # pre) @ bad # rest'"
      using r(1) by simp
    moreover have "\<forall>l \<in> set (ask # pre). parses P l"
      using r(2) True by simp
    moreover have "asks (snd (loadAsks P (ask # rest) ob)) = fold (spec_rekey_step P) (ask # pre) (asks ob)"
      unfolding step using r(4) b1 by simp
    ultimately show ?thesis
      using r(3) by blast
  qed
qed

lemma loadBids_None:
  "fst (loadBids P ls ob) = None \<Longrightarrow> \<forall>l \<in> set ls. parses P l"
  by (induction P ls ob rule: loadBids.induct) (auto simp: parses_def split: option.splits)

lemma loadAsks_None:
  "fst (loadAsks P ls ob) = None \<Longrightarrow> \<forall>l \<in> set ls. parses P l"
  by (induction P ls ob rule: loadAsks.induct) (auto simp: parses_def split: option.splits)

lemma LoadSnapshot_cases:
  "LoadSnapshot P ob snapshot =
     (let ob1 = ob\<lparr>lastUpdateID := LastUpdateID snapshot, bids := [], asks := [],
                   bestBid := 0, bestAsk := 999999999\<rparr>;
          r2 = loadBids P (Snapshot.Bids snapshot) ob1;
          r3 = loadAsks P (Snapshot.Asks snapshot) (snd r2)
      in if fst r2 \<noteq> None then (fst r2, snd r2)
         else if fst r3 \<noteq> None then (fst r3, snd r3)
         else (None, updateStats (snd r3)))"
  by (auto simp: LoadSnapshot_def Let_def split: prod.splits option.splits)

lemma sle_not_sless: "a \<le>s b \<Longrightarrow> \<not> b <s a"
  by (simp add: word_sle_eq word_sless_alt)

lemma LoadSnapshot_fields [simp]:
  "lastUpdateID (snd (LoadSnapshot P ob snapshot)) = LastUpdateID snapshot"
  "eventBuffer (snd (LoadSnapshot P ob snapshot)) = eventBuffer ob"
  "initialized (snd (LoadSnapshot P ob snapshot)) = initialized ob"
  by (simp_all add: LoadSnapshot_cases Let_def)

lemma validEvent_buffer [simp]: "validEvent (ob\<lparr>eventBuffer := b\<rparr>) = validEvent ob"
  by (rule ext) (simp add: validEvent_def)

lemma ProcessBufferedEvents_stale:
  assumes "FinalUpdateID u \<le>s lastUpdateID ob"
  shows "ProcessBufferedEvents P (ob\<lparr>eventBuffer := eventBuffer ob @ [u]\<rparr>) = ProcessBufferedEvents P ob"
proof -
  from assms have "\<not> validEvent ob u"
    by (simp add: validEvent_def)
  then show ?thesis
    by (simp add: ProcessBufferedEvents_def Let_def)
qed

lemma process_single_valid:
  assumes "filter (validEvent ob) (eventBuffer ob) = [e]"
  shows "ProcessBufferedEvents P ob = (applyUpdate P (ob\<lparr>eventBuffer := []\<rparr>) e)\<lparr>initialized := True\<rparr>"
proof -
  have "e \<in> set (filter (validEvent ob) (eventBuffer ob))"
    by (simp add: assms)
  then have "validEvent ob e" by simp
  then have "FirstUpdateID e \<le>s lastUpdateID ob + 1"
    by (simp add: validEvent_def split: if_splits)
  then show ?thesis
    by (simp add: ProcessBufferedEvents_def assms)
qed

lemma process_E1:
  assumes "lastUpdateID ob = 100" and "eventBuffer ob = [e1, e2, e3]"
    and "FinalUpdateID e1 = 98" and "FirstUpdateID e2 = 99" and "FinalUpdateID e2 = 101"
    and "FirstUpdateID e3 = 102" and "FinalUpdateID e3 = 102"
  shows "ProcessBufferedEvents P ob = (applyUpdate P (ob\<lparr>eventBuffer := []\<rparr>) e2)\<lparr>initialized := True\<rparr>"
proof -
  have "filter (validEvent ob) (eventBuffer ob) = [e2]"
    by (simp add: assms validEvent_def)
  then show ?thesis by (rule process_single_valid)
qed

lemmas parse_eval = plain_literal_def digit_def ignore_error_def

lemmas engine_eval = example_update_def example_snapshot_def New_def
  HandleDepthUpdate_def ProcessBufferedEvents_def validEvent_def LoadSnapshot_def
  applyUpdate_def applyBid_def applyAsk_def updateStats_def updateCachedStats_def
  calculateLiquidityDepth_def sumQuantity_def scanBestBid_def scanBestAsk_def
  recalculateBestBid_def recalculateBestAsk_def

lemma E1_buffered_eval: "E1_buffered = New\<lparr>eventBuffer := E1_events\<rparr>"
  by (simp add: E1_buffered_def E1_events_def HandleDepthUpdate_def New_def)

lemma E1_load: "fst (LoadSnapshot plain_literal E1_buffered E1_snapshot) = None"
  by (simp add: E1_buffered_eval E1_snapshot_def engine_eval parse_eval)

lemma E1_loaded_fields: "lastUpdateID E1_loaded = 100" "eventBuffer E1_loaded = E1_events"
  by (simp_all add: E1_loaded_def E1_snapshot_def example_snapshot_def E1_buffered_eval)

lemma E1_processed_eq:
  "E1_processed = (applyUpdate plain_literal (E1_loaded\<lparr>eventBuffer := []\<rparr>)
               (example_update 99 101 98 [\<lparr>Price = ''49999'', Quantity = ''3''\<rparr>] []))\<lparr>initialized := True\<rparr>"
  unfolding E1_processed_def
  by (rule process_E1 [where ?e1.0 = "example_update 97 98 96 [\<lparr>Price = ''49998'', Quantity = ''1''\<rparr>] []"
        and ?e3.0 = "example_update 102 102 101 [\<lparr>Price = ''49997'', Quantity = ''5''\<rparr>] []"])
     (simp_all add: E1_loaded_fields E1_events_def example_update_def)

lemma E1_processed_fields: "initialized E1_processed" "lastUpdateID E1_processed = 101"
  by (simp_all add: E1_processed_eq applyUpdate_fields example_update_def)

lemma E1_loaded_uninitialized: "\<not> initialized E1_loaded"
  by (simp add: E1_loaded_def E1_buffered_eval New_def)

lemma zero_id_book_fields:
  "initialized zero_id_book" "lastUpdateID zero_id_book = 0"
  "bids zero_id_book = [(''100'', \<lparr>Price = 100, Quantity = 1\<rparr>)]" "bestBid zero_id_book = 100"
  by (simp_all add: zero_id_book_def ProcessBufferedEvents_def LoadSnapshot_def
      example_snapshot_def updateStats_def scanBestBid_def Let_def parse_eval New_def)

lemma ignore_error_total [simp]: "ignore_error (Some (ignore_error r)) = ignore_error r"
  by (simp add: ignore_error_def)

lemma applyBid_total: "applyBid (\<lambda>s. Some (ignore_error (P s))) = applyBid P"
  by (intro ext) (simp add: applyBid_def)

lemma applyAsk_total: "applyAsk (\<lambda>s. Some (ignore_error (P s))) = applyAsk P"
  by (intro ext) (simp add: applyAsk_def)

lemma applyUpdate_total: "applyUpdate (\<lambda>s. Some (ignore_error (P s))) ob u = applyUpdate P ob u"
  by (simp add: applyUpdate_def applyBid_total applyAsk_total)

lemma refreshed_best [simp]:
  "BestBid (stats (updateCachedStats ob)) = bestBid ob"
  "BestAsk (stats (updateCachedStats ob)) = bestAsk ob"
  by (simp_all add: updateCachedStats_def calculateLiquidityDepth_def Let_def)


text \<open>
  Every update the OKX adapter emits has the three ids 0 and carries the levels of the
  polled response; an initialized book whose \<^verbatim>\<open>lastUpdateID\<close> is 0 hands it to
  \<^verbatim>\<open>applyUpdate\<close> and stays at 0.
\<close>

theorem okx_update_ids:
  assumes "poll e response now = Some u"
  shows "FirstUpdateID u = 0 \<and> FinalUpdateID u = 0 \<and> PrevUpdateID u = 0 \<and>
         (\<exists>okxResp. response = Some okxResp \<and> Code okxResp = ''0'' \<and> Data okxResp \<noteq> [] \<and>
            Bids u = map convertLevel (OrderBookData.Bids (Data okxResp ! 0)) \<and>
            Asks u = map convertLevel (OrderBookData.Asks (Data okxResp ! 0))) \<and>
         (\<forall>ob. initialized ob \<and> lastUpdateID ob = 0 \<longrightarrow>
            HandleDepthUpdate P ob u = applyUpdate P ob u \<and>
            lastUpdateID (HandleDepthUpdate P ob u) = 0)"
proof -
  from assms obtain okxResp where r: "response = Some okxResp" "Code okxResp = ''0''" "Data okxResp \<noteq> []"
    and u: "u = \<lparr>Exchange = GetName, Symbol = instId e,
                  EventTime = Timestamp (convertSnapshot e (Data okxResp ! 0) now),
                  FirstUpdateID = 0, FinalUpdateID = 0, PrevUpdateID = 0,
                  Bids = Snapshot.Bids (convertSnapshot e (Data okxResp ! 0) now),
                  Asks = Snapshot.Asks (convertSnapshot e (Data okxResp ! 0) now)\<rparr>"
    by (auto simp: poll_def GetSnapshot_def split: option.splits if_splits sum.splits)
  have ids: "FirstUpdateID u = 0" "FinalUpdateID u = 0" "PrevUpdateID u = 0"
    by (simp_all add: u)
  have levels: "Bids u = map convertLevel (OrderBookData.Bids (Data okxResp ! 0))"
    "Asks u = map convertLevel (OrderBookData.Asks (Data okxResp ! 0))"
    by (simp_all add: u convertSnapshot_def)
  have "HandleDepthUpdate P ob u = applyUpdate P ob u \<and> lastUpdateID (HandleDepthUpdate P ob u) = 0"
    if "initialized ob \<and> lastUpdateID ob = 0" for ob
    using that ids by (simp add: HandleDepthUpdate_def applyUpdate_fields)
  with ids levels r show ?thesis by blast
qed

lemma okx_poll_eval:
  "poll okx_exchange (okx_response b a) now =
     Some \<lparr>Exchange = ''okx'', Symbol = ''BTC-USDT'', EventTime = now,
           FirstUpdateID = 0, FinalUpdateID = 0, PrevUpdateID = 0,
           Bids = [\<lparr>Price = b, Quantity = ''1''\<rparr>], Asks = [\<lparr>Price = a, Quantity = ''2''\<rparr>]\<rparr>"
  by (simp add: poll_def GetSnapshot_def okx_response_def okx_exchange_def convertSnapshot_def
      convertLevel_def GetName_def)

lemma two_sided_book_fields:
  "initialized two_sided_book" "lastUpdateID two_sided_book = 100"
  "asks two_sided_book = [(''101'', \<lparr>Price = 101, Quantity = 1\<rparr>)]" "bestAsk two_sided_book = 101"
  by (simp_all add: two_sided_book_def ProcessBufferedEvents_def LoadSnapshot_def two_sided_snapshot_def
      example_snapshot_def updateStats_def scanBestBid_def scanBestAsk_def Let_def parse_eval New_def)

lemma ask_removed_fields:
  "initialized ask_removed" "lastUpdateID ask_removed = 101"
  "asks ask_removed = []" "bestAsk ask_removed = 0"
  by (simp_all add: ask_removed_def HandleDepthUpdate_def two_sided_book_fields example_update_def
      applyUpdate_def applyAsk_def recalculateBestAsk_def scanBestAsk_def Let_def parse_eval)


lemma stats_fresh_flags [simp]:
  "stats_fresh (ob\<lparr>eventBuffer := b\<rparr>) = stats_fresh ob"
  "stats_fresh (ob\<lparr>initialized := i\<rparr>) = stats_fresh ob"
  by (simp_all add: stats_fresh_def)









lemma dec_Div_zero [simp]: "dec_Div 0 d = 0"
  by (simp add: dec_Div_def)






lemma spec_merge_append: "spec_merge P (xs @ ys) m = spec_merge P ys (spec_merge P xs m)"
  by (simp add: spec_merge_def)

lemma spec_merge_other:
  "k \<notin> Price ` set ls \<Longrightarrow> spec_merge P ls m k = m k"
proof (induction ls arbitrary: m)
  case Nil
  show ?case by (simp add: spec_merge_def)
next
  case (Cons l ls)
  then have "spec_merge P ls (spec_merge P [l] m) k = spec_merge P [l] m k"
    by simp
  also have "\<dots> = m k"
    using Cons.prems by (simp add: spec_merge_def)
  finally show ?case
    by (simp only: spec_merge_Cons [of P l ls])
qed

lemma spec_merge_last_mention:
  assumes "ls = pre @ l # post" and "Price l \<notin> Price ` set post"
  shows "spec_merge P ls m (Price l) = spec_merge P [l] (spec_merge P pre m) (Price l)"
proof -
  have "spec_merge P ls m = spec_merge P post (spec_merge P [l] (spec_merge P pre m))"
    unfolding assms(1) by (simp add: spec_merge_append spec_merge_Cons [of P l post])
  then show ?thesis
    using assms(2) by (simp add: spec_merge_other)
qed

lemma spec_merge_single:
  "spec_merge P [l] m (Price l) =
     (if ignore_error (P (Quantity l)) = 0 then None
      else Some \<lparr>Price = ignore_error (P (Price l)), Quantity = ignore_error (P (Quantity l))\<rparr>)"
  by (simp add: spec_merge_def)

lemma spec_merge_unparsable_quantity:
  assumes "ls = pre @ l # post" and "Price l \<notin> Price ` set post" and "P (Quantity l) = None"
  shows "spec_merge P ls m (Price l) = None"
  unfolding spec_merge_last_mention [OF assms(1,2)] spec_merge_single
  using assms(3) by (simp add: ignore_error_def)

lemma spec_merge_unparsable_price:
  assumes "ls = pre @ l # post" and "Price l \<notin> Price ` set post"
    and "P (Price l) = None" and "ignore_error (P (Quantity l)) \<noteq> 0"
  shows "spec_merge P ls m (Price l) = Some \<lparr>Price = 0, Quantity = ignore_error (P (Quantity l))\<rparr>"
  unfolding spec_merge_last_mention [OF assms(1,2)] spec_merge_single
  using assms(3,4) by (simp add: ignore_error_def)

lemma applyUpdate_single_bid_best:
  assumes "Bids u = [l]" and "Asks u = []" and "P (Price l) = None" and "ignore_error (P (Quantity l)) \<noteq> 0"
  shows "bestBid (applyUpdate P ob u) = (if bestBid ob < 0 then 0 else bestBid ob)"
  using assms(4) by (simp add: applyUpdate_def applyBid_def Let_def assms(1-3)) (simp add: ignore_error_def)

lemma applyUpdate_single_ask_best:
  assumes "Bids u = []" and "Asks u = [l]" and "P (Price l) = None" and "ignore_error (P (Quantity l)) \<noteq> 0"
  shows "bestAsk (applyUpdate P ob u) = (if 0 < bestAsk ob then 0 else bestAsk ob)"
  using assms(4) by (simp add: applyUpdate_def applyAsk_def Let_def assms(1-3)) (simp add: ignore_error_def)

lemma E1_loaded_levels:
  "bids E1_loaded = [(''50000'', \<lparr>Price = 50000, Quantity = 1\<rparr>)]"
  "asks E1_loaded = [(''50001'', \<lparr>Price = 50001, Quantity = 2\<rparr>)]"
  "bestBid E1_loaded = 50000" "bestAsk E1_loaded = 50001"
  by (simp_all add: E1_loaded_def LoadSnapshot_def E1_snapshot_def example_snapshot_def
      updateStats_def scanBestBid_def scanBestAsk_def Let_def parse_eval)

lemma E1_processed_levels:
  "bids E1_processed = [(''50000'', \<lparr>Price = 50000, Quantity = 1\<rparr>), (''49999'', \<lparr>Price = 49999, Quantity = 3\<rparr>)]"
  "asks E1_processed = [(''50001'', \<lparr>Price = 50001, Quantity = 2\<rparr>)]"
  "bestBid E1_processed = 50000" "bestAsk E1_processed = 50001" "eventBuffer E1_processed = []"
  by (simp_all add: E1_processed_eq E1_loaded_levels example_update_def applyUpdate_def applyBid_def
      Let_def parse_eval)


lemma okx_book_fields:
  "initialized okx_book" "lastUpdateID okx_book = 0"
  "bids okx_book = [(''100'', \<lparr>Price = 100, Quantity = 1\<rparr>)]" "bestBid okx_book = 100"
  by (simp_all add: okx_book_def GetSnapshot_def okx_response_def okx_exchange_def convertSnapshot_def
      convertLevel_def GetName_def ProcessBufferedEvents_def LoadSnapshot_def
      updateStats_def scanBestBid_def scanBestAsk_def Let_def parse_eval New_def)

lemma okx_reload_bids:
  "(case GetSnapshot okx_exchange (okx_response ''99'' ''101'') 6 of
      Inr snapshot \<Rightarrow> bids (snd (LoadSnapshot plain_literal okx_book snapshot))
    | Inl err \<Rightarrow> bids okx_book) = [(''99'', \<lparr>Price = 99, Quantity = 1\<rparr>)]"
  by (simp add: GetSnapshot_def okx_response_def okx_exchange_def convertSnapshot_def
      convertLevel_def GetName_def LoadSnapshot_def
      updateStats_def scanBestBid_def scanBestAsk_def Let_def parse_eval)

section \<open>The claims\<close>

text \<open>
  Claim C1 at its own input. The book of scenario E1 is loaded with a snapshot whose
  \<^verbatim>\<open>lastUpdateId\<close> is 100 and holds the three buffered events with final id 98, with ids
  (99, 101) and with ids (102, 102), the last with \<^verbatim>\<open>PrevUpdateID = 101\<close>.
  \<^verbatim>\<open>ProcessBufferedEvents\<close> tests every buffered event against the id of the snapshot, so
  the third event is not retained although it continues the second: the book ends
  initialized, with an empty buffer and \<^verbatim>\<open>lastUpdateId = 101\<close>, not 102. The bid 49999 of
  the second event is stored, the bid 49997 of the third is not. The lost event is in
  sequence for the resulting book, and \<^verbatim>\<open>HandleDepthUpdate\<close> would take the book to 102 with
  it; the next live event, with ids (103, 103) and \<^verbatim>\<open>PrevUpdateID = 102\<close>, is only buffered.
\<close>

theorem E1_in_sequence_event_lost:
  "lastUpdateID E1_loaded = 100 \<and> eventBuffer E1_loaded = E1_events \<and>
   E1_processed = ProcessBufferedEvents plain_literal E1_loaded \<and>
   initialized E1_processed \<and> eventBuffer E1_processed = [] \<and>
   lastUpdateID E1_processed = 101 \<and> lastUpdateID E1_processed \<noteq> 102 \<and>
   map_of (bids E1_processed) ''49999'' = Some \<lparr>Price = 49999, Quantity = 3\<rparr> \<and>
   map_of (bids E1_processed) ''49997'' = None \<and>
   PrevUpdateID (E1_events ! 2) = lastUpdateID E1_processed \<and>
   lastUpdateID (HandleDepthUpdate plain_literal E1_processed (E1_events ! 2)) = 102 \<and>
   HandleDepthUpdate plain_literal E1_processed (example_update 103 103 102 [] [])
     = E1_processed\<lparr>eventBuffer := [example_update 103 103 102 [] []]\<rparr>"
proof -
  have e3: "E1_events ! 2 = example_update 102 102 101 [\<lparr>Price = ''49997'', Quantity = ''5''\<rparr>] []"
    by (simp add: E1_events_def)
  have "lastUpdateID (HandleDepthUpdate plain_literal E1_processed (E1_events ! 2)) = 102"
    unfolding e3
    by (simp add: HandleDepthUpdate_def E1_processed_fields example_update_def applyUpdate_fields)
  moreover have "HandleDepthUpdate plain_literal E1_processed (example_update 103 103 102 [] [])
     = E1_processed\<lparr>eventBuffer := [example_update 103 103 102 [] []]\<rparr>"
    by (simp add: HandleDepthUpdate_def E1_processed_fields E1_processed_levels example_update_def)
  ultimately show ?thesis
    by (simp add: E1_loaded_fields E1_processed_def [symmetric] E1_processed_fields
        E1_processed_levels e3 example_update_def)
qed

text \<open>
  Claim C2 at a failing input. A book is loaded with one bid and the ask 101 and
  initialized; an in-sequence update removes the ask 101, the next one adds the ask 102.
  The book then stores the single ask 102 while its cached best ask, and the best ask of
  its stats, is 0: \<^verbatim>\<open>applyUpdate\<close> compares a new ask with the cached value by
  \<^verbatim>\<open>LessThan\<close>, and 0 is what the cache holds for an empty side.
\<close>

theorem best_ask_stuck_at_zero:
  "initialized ask_added \<and>
   asks ask_added = [(''102'', \<lparr>Price = 102, Quantity = 1\<rparr>)] \<and>
   bestAsk ask_added = 0 \<and> BestAsk (stats ask_added) = 0"
  by (simp add: ask_added_def HandleDepthUpdate_def ask_removed_fields example_update_def
      applyUpdate_def applyAsk_def Let_def parse_eval)

text \<open>
  Claim C3. On an initialized book an update whose \<^verbatim>\<open>PrevUpdateID\<close> equals the book's
  \<^verbatim>\<open>lastUpdateID\<close> is applied by \<^verbatim>\<open>HandleDepthUpdate\<close>: it is not buffered, its bid
  and ask levels are merged into the two sides of the book, and \<^verbatim>\<open>lastUpdateID\<close> becomes
  the update's \<^verbatim>\<open>FinalUpdateID\<close>.
\<close>

theorem in_sequence_update_applied:
  assumes "initialized ob" and "PrevUpdateID u = lastUpdateID ob"
  shows "HandleDepthUpdate P ob u = applyUpdate P ob u \<and>
         lastUpdateID (HandleDepthUpdate P ob u) = FinalUpdateID u \<and>
         eventBuffer (HandleDepthUpdate P ob u) = eventBuffer ob \<and>
         map_of (bids (HandleDepthUpdate P ob u)) = spec_merge P (Bids u) (map_of (bids ob)) \<and>
         map_of (asks (HandleDepthUpdate P ob u)) = spec_merge P (Asks u) (map_of (asks ob))"
proof -
  from assms have "HandleDepthUpdate P ob u = applyUpdate P ob u"
    by (simp add: HandleDepthUpdate_def)
  then show ?thesis
    by (simp only: applyUpdate_fields)
qed

theorem in_sequence_update_applied_witness:
  "initialized E1_processed \<and>
   PrevUpdateID (example_update 102 102 101 [\<lparr>Price = ''49997'', Quantity = ''5''\<rparr>] []) = lastUpdateID E1_processed \<and>
   lastUpdateID (HandleDepthUpdate plain_literal E1_processed
                   (example_update 102 102 101 [\<lparr>Price = ''49997'', Quantity = ''5''\<rparr>] [])) = 102"
proof -
  let ?u = "example_update 102 102 101 [\<lparr>Price = ''49997'', Quantity = ''5''\<rparr>] []"
  have h1: "initialized E1_processed" by (rule E1_processed_fields)
  have h2: "PrevUpdateID ?u = lastUpdateID E1_processed"
    by (simp add: E1_processed_fields example_update_def)
  from in_sequence_update_applied [OF h1 h2, of plain_literal]
  have "lastUpdateID (HandleDepthUpdate plain_literal E1_processed ?u) = FinalUpdateID ?u"
    by blast
  with h1 h2 show ?thesis
    by (simp add: example_update_def)
qed

text \<open>
  Claim C4, amended. Let \<^verbatim>\<open>FinalUpdateID\<close> of an update be at most the book's
  \<^verbatim>\<open>lastUpdateID\<close>. On an uninitialized book \<^verbatim>\<open>HandleDepthUpdate\<close> only appends the update
  to the buffer, and \<^verbatim>\<open>ProcessBufferedEvents\<close> discards it: the result is the one without
  it. On an initialized book whose \<^verbatim>\<open>lastUpdateID\<close> differs from the update's
  \<^verbatim>\<open>PrevUpdateID\<close>, \<^verbatim>\<open>HandleDepthUpdate\<close> appends the update to the buffer and leaves
  levels and stats unchanged.
\<close>

theorem stale_update_not_applied:
  assumes "FinalUpdateID u \<le>s lastUpdateID ob"
  shows "(\<not> initialized ob \<longrightarrow>
            HandleDepthUpdate P ob u = ob\<lparr>eventBuffer := eventBuffer ob @ [u]\<rparr> \<and>
            ProcessBufferedEvents P (HandleDepthUpdate P ob u) = ProcessBufferedEvents P ob) \<and>
         (initialized ob \<and> PrevUpdateID u \<noteq> lastUpdateID ob \<longrightarrow>
            HandleDepthUpdate P ob u = ob\<lparr>eventBuffer := eventBuffer ob @ [u]\<rparr> \<and>
            bids (HandleDepthUpdate P ob u) = bids ob \<and>
            asks (HandleDepthUpdate P ob u) = asks ob \<and>
            stats (HandleDepthUpdate P ob u) = stats ob)"
proof -
  from assms have "\<not> lastUpdateID ob <s FinalUpdateID u"
    by (rule sle_not_sless)
  then show ?thesis
    by (simp add: HandleDepthUpdate_def ProcessBufferedEvents_stale [OF assms])
qed

theorem stale_update_not_applied_witness:
  "\<not> initialized E1_loaded \<and>
   HandleDepthUpdate plain_literal E1_loaded (example_update 97 98 96 [] [])
     = E1_loaded\<lparr>eventBuffer := eventBuffer E1_loaded @ [example_update 97 98 96 [] []]\<rparr> \<and>
   ProcessBufferedEvents plain_literal
       (HandleDepthUpdate plain_literal E1_loaded (example_update 97 98 96 [] []))
     = ProcessBufferedEvents plain_literal E1_loaded \<and>
   initialized E1_processed \<and>
   PrevUpdateID (example_update 97 98 96 [] []) \<noteq> lastUpdateID E1_processed \<and>
   bids (HandleDepthUpdate plain_literal E1_processed (example_update 97 98 96 [] [])) = bids E1_processed \<and>
   stats (HandleDepthUpdate plain_literal E1_processed (example_update 97 98 96 [] [])) = stats E1_processed"
proof -
  let ?u = "example_update 97 98 96 [] []"
  have h1: "FinalUpdateID ?u \<le>s lastUpdateID E1_loaded"
    by (simp add: E1_loaded_fields example_update_def)
  have h2: "FinalUpdateID ?u \<le>s lastUpdateID E1_processed"
    by (simp add: E1_processed_fields example_update_def)
  have h3: "PrevUpdateID ?u \<noteq> lastUpdateID E1_processed"
    by (simp add: E1_processed_fields example_update_def)
  show ?thesis
    using stale_update_not_applied [OF h1, of plain_literal] stale_update_not_applied [OF h2, of plain_literal]
      h3 E1_loaded_uninitialized E1_processed_fields(1)
    by blast
qed

text \<open>
  Claim C4 as stated fails when \<^verbatim>\<open>PrevUpdateID\<close> equals \<^verbatim>\<open>lastUpdateID\<close>: the first
  test of \<^verbatim>\<open>HandleDepthUpdate\<close> accepts the update whatever its final id. A book loaded
  from a snapshot with \<^verbatim>\<open>lastUpdateId = 0\<close> and initialized receives an update with all
  three ids 0, as the adapters without sequence ids send it; the update is applied and
  the bids change.
\<close>

theorem stale_update_applied_counterexample:
  "initialized zero_id_book \<and>
   FinalUpdateID (example_update 0 0 0 [\<lparr>Price = ''99'', Quantity = ''1''\<rparr>] [])
      \<le>s lastUpdateID zero_id_book \<and>
   bids (HandleDepthUpdate plain_literal zero_id_book
           (example_update 0 0 0 [\<lparr>Price = ''99'', Quantity = ''1''\<rparr>] []))
     \<noteq> bids zero_id_book"
  by (simp add: zero_id_book_fields example_update_def HandleDepthUpdate_def applyUpdate_def
      applyBid_def Let_def parse_eval)




text \<open>
  Claim C6 at a failing input. A book is loaded from an OKX snapshot with the bid 100 and
  initialized; the next poll answers with the single bid 99. The two polls emit updates
  whose ids are all 0, so \<^verbatim>\<open>PrevUpdateID + 1\<close> is not \<^verbatim>\<open>FirstUpdateID\<close> and the ids do not
  increase. The update is merged, not substituted: afterwards the book stores the bid 100
  next to the bid 99 and its best bid is still 100, a level the venue no longer has.
  \<^verbatim>\<open>LoadSnapshot\<close> with the same polled snapshot leaves the bid 99 alone.
\<close>

theorem okx_poll_ids_constant_and_merged:
  "poll okx_exchange (okx_response ''100'' ''101'') 5 \<noteq> None \<and>
   poll okx_exchange (okx_response ''99'' ''101'') 6 \<noteq> None \<and>
   PrevUpdateID (the (poll okx_exchange (okx_response ''99'' ''101'') 6)) + 1
     \<noteq> FirstUpdateID (the (poll okx_exchange (okx_response ''99'' ''101'') 6)) \<and>
   \<not> FinalUpdateID (the (poll okx_exchange (okx_response ''100'' ''101'') 5))
       <s FirstUpdateID (the (poll okx_exchange (okx_response ''99'' ''101'') 6)) \<and>
   Bids (the (poll okx_exchange (okx_response ''99'' ''101'') 6)) = [\<lparr>Price = ''99'', Quantity = ''1''\<rparr>] \<and>
   initialized okx_book \<and> bids okx_book = [(''100'', \<lparr>Price = 100, Quantity = 1\<rparr>)] \<and>
   bids okx_polled = [(''100'', \<lparr>Price = 100, Quantity = 1\<rparr>), (''99'', \<lparr>Price = 99, Quantity = 1\<rparr>)] \<and>
   bestBid okx_polled = 100 \<and>
   (case GetSnapshot okx_exchange (okx_response ''99'' ''101'') 6 of
      Inr snapshot \<Rightarrow> bids (snd (LoadSnapshot plain_literal okx_book snapshot))
    | Inl err \<Rightarrow> bids okx_book) = [(''99'', \<lparr>Price = 99, Quantity = 1\<rparr>)]"
  using okx_reload_bids
  by (simp add: okx_poll_eval okx_polled_def okx_book_fields HandleDepthUpdate_def applyUpdate_def
      applyBid_def applyAsk_def Let_def parse_eval)

text \<open>
  Claim C7 at a failing input. At tick 1 the bid price 0.99999999999999999 (17 digits) has
  floor 0, but \<^verbatim>\<open>Div\<close> rounds the quotient to 1.0000000000000000 first, so
  \<^verbatim>\<open>roundToTickBid\<close> returns 1, above the price; the ask price 1.00000000000000001 has
  ceiling 2 and \<^verbatim>\<open>roundToTickAsk\<close> returns 1, below the price. The single bid bucket of
  \<^verbatim>\<open>AggregateBids\<close> is above the highest input bid and the single ask bucket of
  \<^verbatim>\<open>AggregateAsks\<close> is below the lowest input ask.
\<close>

theorem aggregation_rounds_across_best_prices:
  "0 < currentTick \<lparr>currentTick = 1\<rparr> \<and>
   dec_Floor (99999999999999999 / 10 ^ 17) = 0 \<and>
   roundToTickBid \<lparr>currentTick = 1\<rparr> (99999999999999999 / 10 ^ 17) = 1 \<and>
   (99999999999999999 / 10 ^ 17 :: decimal) < roundToTickBid \<lparr>currentTick = 1\<rparr> (99999999999999999 / 10 ^ 17) \<and>
   dec_Ceil (100000000000000001 / 10 ^ 17) = 2 \<and>
   roundToTickAsk \<lparr>currentTick = 1\<rparr> (100000000000000001 / 10 ^ 17) = 1 \<and>
   roundToTickAsk \<lparr>currentTick = 1\<rparr> (100000000000000001 / 10 ^ 17) < (100000000000000001 / 10 ^ 17 :: decimal) \<and>
   AggregateBids \<lparr>currentTick = 1\<rparr> [\<lparr>Price = 99999999999999999 / 10 ^ 17, Quantity = 1\<rparr>]
     = [\<lparr>Price = 1, Quantity = 1\<rparr>] \<and>
   AggregateAsks \<lparr>currentTick = 1\<rparr> [\<lparr>Price = 100000000000000001 / 10 ^ 17, Quantity = 1\<rparr>]
     = [\<lparr>Price = 1, Quantity = 1\<rparr>] \<and>
   \<not> Max (Price ` set (AggregateBids \<lparr>currentTick = 1\<rparr>
            [\<lparr>Price = 99999999999999999 / 10 ^ 17, Quantity = 1\<rparr>]))
       \<le> Max (Price ` set [\<lparr>Price = 99999999999999999 / 10 ^ 17, Quantity = 1 :: decimal\<rparr>]) \<and>
   \<not> Min (Price ` set [\<lparr>Price = 100000000000000001 / 10 ^ 17, Quantity = 1 :: decimal\<rparr>])
       \<le> Min (Price ` set (AggregateAsks \<lparr>currentTick = 1\<rparr>
            [\<lparr>Price = 100000000000000001 / 10 ^ 17, Quantity = 1\<rparr>]))"
proof -
  have f: "dec_Floor (99999999999999999 / 10 ^ 17) = 0" "dec_Ceil (100000000000000001 / 10 ^ 17) = 2"
    by (simp_all add: dec_eval)
  have rb: "roundToTickBid \<lparr>currentTick = 1\<rparr> (99999999999999999 / 10 ^ 17) = 1"
    by (simp add: agg_eval)
  have ra: "roundToTickAsk \<lparr>currentTick = 1\<rparr> (100000000000000001 / 10 ^ 17) = 1"
    by (simp add: agg_eval)
  have b: "AggregateBids \<lparr>currentTick = 1\<rparr> [\<lparr>Price = 99999999999999999 / 10 ^ 17, Quantity = 1\<rparr>]
             = [\<lparr>Price = 1, Quantity = 1\<rparr>]"
    by (simp add: agg_eval)
  have a: "AggregateAsks \<lparr>currentTick = 1\<rparr> [\<lparr>Price = 100000000000000001 / 10 ^ 17, Quantity = 1\<rparr>]
             = [\<lparr>Price = 1, Quantity = 1\<rparr>]"
    by (simp add: agg_eval)
  show ?thesis
    unfolding a b rb ra f by simp
qed

text \<open>
  Claim C8. Tick aggregation is idempotent at a fixed tick: feeding the output of
  \<^verbatim>\<open>AggregateBids\<close> (or \<^verbatim>\<open>AggregateAsks\<close>), in whatever order the map iteration
  produced it, to the same function at the same tick gives the same set of
  (price, quantity) buckets. This holds for every tick, also zero and negative ones.
\<close>

theorem aggregation_idempotent:
  assumes "mset ys = mset (AggregateBids a levels)" and "mset zs = mset (AggregateAsks a levels)"
  shows "set (AggregateBids a ys) = set (AggregateBids a levels) \<and>
         set (AggregateAsks a zs) = set (AggregateAsks a levels)"
proof
  have "AggregateBids a ys = ys"
    unfolding AggregateBids_def [of a ys]
    by (rule aggregate_reordered [OF roundToTickBid_idem AggregateBids_def assms(1)])
  moreover from assms(1) have "set ys = set (AggregateBids a levels)"
    by (rule mset_eq_setD)
  ultimately show "set (AggregateBids a ys) = set (AggregateBids a levels)"
    by (simp only:)
  have "AggregateAsks a zs = zs"
    unfolding AggregateAsks_def [of a zs]
    by (rule aggregate_reordered [OF roundToTickAsk_idem AggregateAsks_def assms(2)])
  moreover from assms(2) have "set zs = set (AggregateAsks a levels)"
    by (rule mset_eq_setD)
  ultimately show "set (AggregateAsks a zs) = set (AggregateAsks a levels)"
    by (simp only:)
qed

theorem aggregation_idempotent_witness:
  "set (AggregateBids \<lparr>currentTick = 10\<rparr>
          [\<lparr>Price = 50010, Quantity = 2\<rparr>, \<lparr>Price = 50000, Quantity = 5 / 2\<rparr>])
     = set (AggregateBids \<lparr>currentTick = 10\<rparr>
          [\<lparr>Price = 50001, Quantity = 1\<rparr>, \<lparr>Price = 50005, Quantity = 3 / 2\<rparr>,
           \<lparr>Price = 50019, Quantity = 2\<rparr>]) \<and>
   set (AggregateAsks \<lparr>currentTick = 10\<rparr>
          [\<lparr>Price = 50020, Quantity = 2\<rparr>, \<lparr>Price = 50010, Quantity = 5 / 2\<rparr>])
     = set (AggregateAsks \<lparr>currentTick = 10\<rparr>
          [\<lparr>Price = 50001, Quantity = 1\<rparr>, \<lparr>Price = 50005, Quantity = 3 / 2\<rparr>,
           \<lparr>Price = 50019, Quantity = 2\<rparr>])"
proof -
  let ?a = "\<lparr>currentTick = 10\<rparr>"
  let ?ls = "[\<lparr>Price = 50001, Quantity = 1\<rparr>, \<lparr>Price = 50005, Quantity = 3 / 2\<rparr>,
              \<lparr>Price = 50019, Quantity = (2::decimal)\<rparr>]"
  have b: "AggregateBids ?a ?ls = [\<lparr>Price = 50000, Quantity = 5 / 2\<rparr>, \<lparr>Price = 50010, Quantity = 2\<rparr>]"
    by (simp add: agg_eval)
  have a: "AggregateAsks ?a ?ls = [\<lparr>Price = 50010, Quantity = 5 / 2\<rparr>, \<lparr>Price = 50020, Quantity = 2\<rparr>]"
    by (simp add: agg_eval)
  have h1: "mset [\<lparr>Price = 50010, Quantity = 2\<rparr>, \<lparr>Price = 50000, Quantity = 5 / 2\<rparr>]
              = mset (AggregateBids ?a ?ls)"
    unfolding b by simp
  have h2: "mset [\<lparr>Price = 50020, Quantity = 2\<rparr>, \<lparr>Price = 50010, Quantity = 5 / 2\<rparr>]
              = mset (AggregateAsks ?a ?ls)"
    unfolding a by simp
  show ?thesis
    by (rule aggregation_idempotent [OF h1 h2])
qed

text \<open>
  Claim C9. When \<^verbatim>\<open>LoadSnapshot\<close> returns a parse error the book has already been
  changed: \<^verbatim>\<open>lastUpdateID\<close> is the snapshot's id, the bids are exactly the levels that
  precede the failing entry (all of the snapshot's bids when the failing entry is an ask),
  the asks are the ask levels that precede it (none when the failing entry is a bid).
  The buffer, the flag \<^verbatim>\<open>initialized\<close> and the stats are the old ones, the stats not
  being refreshed.
\<close>

theorem LoadSnapshot_error_not_atomic:
  assumes "LoadSnapshot P ob snapshot = (Some err, ob')"
  shows "lastUpdateID ob' = LastUpdateID snapshot \<and>
         eventBuffer ob' = eventBuffer ob \<and> initialized ob' = initialized ob \<and> stats ob' = stats ob \<and>
         (\<exists>pre bad rest. (\<forall>l \<in> set pre. parses P l) \<and> \<not> parses P bad \<and>
            (Snapshot.Bids snapshot = pre @ bad # rest \<and>
               bids ob' = spec_rekey P pre \<and> asks ob' = [] \<or>
             (\<forall>l \<in> set (Snapshot.Bids snapshot). parses P l) \<and>
               Snapshot.Asks snapshot = pre @ bad # rest \<and>
               bids ob' = spec_rekey P (Snapshot.Bids snapshot) \<and> asks ob' = spec_rekey P pre))"
proof -
  define ob1 where "ob1 = ob\<lparr>lastUpdateID := LastUpdateID snapshot, bids := [], asks := [],
                              bestBid := 0, bestAsk := 999999999\<rparr>"
  define ob2 where "ob2 = snd (loadBids P (Snapshot.Bids snapshot) ob1)"
  define ob3 where "ob3 = snd (loadAsks P (Snapshot.Asks snapshot) ob2)"
  have ob2: "lastUpdateID ob2 = LastUpdateID snapshot" "eventBuffer ob2 = eventBuffer ob"
    "initialized ob2 = initialized ob" "stats ob2 = stats ob" "asks ob2 = []"
    by (simp_all add: ob2_def ob1_def)
  have ob3: "lastUpdateID ob3 = LastUpdateID snapshot" "eventBuffer ob3 = eventBuffer ob"
    "initialized ob3 = initialized ob" "stats ob3 = stats ob" "bids ob3 = bids ob2"
    by (simp_all add: ob3_def ob2)
  show ?thesis
  proof (cases "fst (loadBids P (Snapshot.Bids snapshot) ob1)")
    case (Some e)
    with assms have ob': "ob' = ob2"
      by (simp add: LoadSnapshot_cases Let_def ob1_def ob2_def)
    from loadBids_error [OF Some] obtain pre bad rest where r:
      "Snapshot.Bids snapshot = pre @ bad # rest" "\<forall>l \<in> set pre. parses P l" "\<not> parses P bad"
      "bids ob2 = fold (spec_rekey_step P) pre (bids ob1)"
      unfolding ob2_def by blast
    from r(4) have "bids ob' = spec_rekey P pre"
      by (simp add: ob' spec_rekey_def ob1_def)
    with r(1-3) ob2 show ?thesis
      unfolding ob' by blast
  next
    case None
    then have all: "\<forall>l \<in> set (Snapshot.Bids snapshot). parses P l"
      by (rule loadBids_None)
    then have b2: "bids ob2 = spec_rekey P (Snapshot.Bids snapshot)"
      by (simp add: ob2_def loadBids_parsed(2) spec_rekey_def ob1_def)
    from None assms have e3: "fst (loadAsks P (Snapshot.Asks snapshot) ob2) = Some err" and ob': "ob' = ob3"
      by (auto simp: LoadSnapshot_cases Let_def ob1_def ob2_def ob3_def split: if_splits)
    from loadAsks_error [OF e3] obtain pre bad rest where r:
      "Snapshot.Asks snapshot = pre @ bad # rest" "\<forall>l \<in> set pre. parses P l" "\<not> parses P bad"
      "asks ob3 = fold (spec_rekey_step P) pre (asks ob2)"
      unfolding ob3_def by blast
    from r(4) have "asks ob' = spec_rekey P pre"
      by (simp add: ob' spec_rekey_def ob2)
    moreover have "bids ob' = spec_rekey P (Snapshot.Bids snapshot)"
      by (simp add: ob' ob3 b2)
    ultimately show ?thesis
      using r(1-3) ob3 all unfolding ob' by blast
  qed
qed

theorem LoadSnapshot_error_not_atomic_witness:
  "fst (LoadSnapshot plain_literal E1_processed bad_snapshot) = Some (InvalidBidPrice ''oops'') \<and>
   lastUpdateID E1_processed = 101 \<and>
   lastUpdateID (snd (LoadSnapshot plain_literal E1_processed bad_snapshot)) = 200 \<and>
   stats (snd (LoadSnapshot plain_literal E1_processed bad_snapshot)) = stats E1_processed"
proof -
  have e: "fst (LoadSnapshot plain_literal E1_processed bad_snapshot) = Some (InvalidBidPrice ''oops'')"
    by (simp add: LoadSnapshot_cases bad_snapshot_def example_snapshot_def Let_def parse_eval)
  then have h: "LoadSnapshot plain_literal E1_processed bad_snapshot
      = (Some (InvalidBidPrice ''oops''), snd (LoadSnapshot plain_literal E1_processed bad_snapshot))"
    by (simp add: prod_eq_iff)
  from LoadSnapshot_error_not_atomic [OF h] e E1_processed_fields(2)
  show ?thesis
    by (simp add: bad_snapshot_def example_snapshot_def)
qed

text \<open>
  Claim C10. \<^verbatim>\<open>HandleDepthUpdate\<close> has no error result. On an initialized book an update
  that is in sequence, or that overlaps the expected id, is applied, and the book it
  returns is the same for a parser and for the parser that answers 0 in place of every
  error. A bid or ask of the update whose quantity does not parse (and whose price string
  does not occur again later on that side) leaves no level under its price string in the
  returned book; one whose price does not parse, its quantity being non-zero, is stored
  under the raw string with the price 0. That 0 is what is compared with the cached best
  price: alone in the update, such a bid replaces a negative best bid by 0 and such an
  ask replaces a positive best ask by 0.
\<close>

theorem unparsable_levels_of_applied_update:
  assumes "initialized ob"
    and "PrevUpdateID u = lastUpdateID ob \<or>
         FirstUpdateID u \<le>s lastUpdateID ob + 1 \<and> lastUpdateID ob <s FinalUpdateID u"
  shows "HandleDepthUpdate P ob u = applyUpdate P ob u \<and>
         HandleDepthUpdate (\<lambda>s. Some (ignore_error (P s))) ob u = HandleDepthUpdate P ob u \<and>
         (Bids u = pre @ l # post \<and> Price l \<notin> Price ` set post \<longrightarrow>
            (P (Quantity l) = None \<longrightarrow>
               map_of (bids (HandleDepthUpdate P ob u)) (Price l) = None) \<and>
            (P (Price l) = None \<and> ignore_error (P (Quantity l)) \<noteq> 0 \<longrightarrow>
               map_of (bids (HandleDepthUpdate P ob u)) (Price l)
                 = Some \<lparr>Price = 0, Quantity = ignore_error (P (Quantity l))\<rparr>)) \<and>
         (Asks u = pre @ l # post \<and> Price l \<notin> Price ` set post \<longrightarrow>
            (P (Quantity l) = None \<longrightarrow>
               map_of (asks (HandleDepthUpdate P ob u)) (Price l) = None) \<and>
            (P (Price l) = None \<and> ignore_error (P (Quantity l)) \<noteq> 0 \<longrightarrow>
               map_of (asks (HandleDepthUpdate P ob u)) (Price l)
                 = Some \<lparr>Price = 0, Quantity = ignore_error (P (Quantity l))\<rparr>)) \<and>
         (Bids u = [l] \<and> Asks u = [] \<and> P (Price l) = None \<and> ignore_error (P (Quantity l)) \<noteq> 0 \<longrightarrow>
            bestBid (HandleDepthUpdate P ob u) = (if bestBid ob < 0 then 0 else bestBid ob)) \<and>
         (Bids u = [] \<and> Asks u = [l] \<and> P (Price l) = None \<and> ignore_error (P (Quantity l)) \<noteq> 0 \<longrightarrow>
            bestAsk (HandleDepthUpdate P ob u) = (if 0 < bestAsk ob then 0 else bestAsk ob))"
proof -
  from assms have h: "HandleDepthUpdate P ob u = applyUpdate P ob u"
    by (auto simp: HandleDepthUpdate_def Let_def)
  have t: "HandleDepthUpdate (\<lambda>s. Some (ignore_error (P s))) ob u = HandleDepthUpdate P ob u"
    by (simp add: HandleDepthUpdate_def Let_def applyUpdate_total)
  show ?thesis
    unfolding h
    by (intro conjI impI refl)
       (simp_all add: t [unfolded h] applyUpdate_fields spec_merge_unparsable_quantity
          spec_merge_unparsable_price applyUpdate_single_bid_best applyUpdate_single_ask_best)
qed

theorem unparsable_levels_of_applied_update_witness:
  "initialized E1_processed \<and>
   PrevUpdateID (example_update 102 102 101 [\<lparr>Price = ''49999'', Quantity = ''abc''\<rparr>] []) = lastUpdateID E1_processed \<and>
   plain_literal ''abc'' = None \<and>
   map_of (bids E1_processed) ''49999'' = Some \<lparr>Price = 49999, Quantity = 3\<rparr> \<and>
   map_of (bids (HandleDepthUpdate plain_literal E1_processed
       (example_update 102 102 101 [\<lparr>Price = ''49999'', Quantity = ''abc''\<rparr>] []))) ''49999'' = None \<and>
   plain_literal ''1e'' = None \<and>
   map_of (asks (HandleDepthUpdate plain_literal E1_processed
       (example_update 102 102 101 [] [\<lparr>Price = ''1e'', Quantity = ''2''\<rparr>]))) ''1e''
     = Some \<lparr>Price = 0, Quantity = 2\<rparr> \<and>
   bestAsk E1_processed = 50001 \<and>
   bestAsk (HandleDepthUpdate plain_literal E1_processed
       (example_update 102 102 101 [] [\<lparr>Price = ''1e'', Quantity = ''2''\<rparr>])) = 0"
proof -
  let ?l1 = "\<lparr>Price = ''49999'', Quantity = ''abc''\<rparr>"
  let ?l2 = "\<lparr>Price = ''1e'', Quantity = ''2''\<rparr>"
  let ?u1 = "example_update 102 102 101 [?l1] []"
  let ?u2 = "example_update 102 102 101 [] [?l2]"
  have i: "initialized E1_processed" by (rule E1_processed_fields)
  have s1': "PrevUpdateID ?u1 = lastUpdateID E1_processed"
    by (simp add: E1_processed_fields example_update_def)
  then have s1: "PrevUpdateID ?u1 = lastUpdateID E1_processed \<or>
      FirstUpdateID ?u1 \<le>s lastUpdateID E1_processed + 1 \<and> lastUpdateID E1_processed <s FinalUpdateID ?u1"
    by (rule disjI1)
  have s2': "PrevUpdateID ?u2 = lastUpdateID E1_processed"
    by (simp add: E1_processed_fields example_update_def)
  then have s2: "PrevUpdateID ?u2 = lastUpdateID E1_processed \<or>
      FirstUpdateID ?u2 \<le>s lastUpdateID E1_processed + 1 \<and> lastUpdateID E1_processed <s FinalUpdateID ?u2"
    by (rule disjI1)
  have p1: "plain_literal ''abc'' = None" and p2: "plain_literal ''1e'' = None"
    and q2: "ignore_error (plain_literal ''2'') = 2"
    by (simp_all add: parse_eval)
  have b1: "Bids ?u1 = [] @ ?l1 # [] \<and> Price ?l1 \<notin> Price ` set []"
    by (simp add: example_update_def)
  have a2: "Asks ?u2 = [] @ ?l2 # [] \<and> Price ?l2 \<notin> Price ` set []"
    and a2': "Bids ?u2 = [] \<and> Asks ?u2 = [?l2]"
    by (simp_all add: example_update_def)
  have p1': "plain_literal (Quantity ?l1) = None"
    and p2': "plain_literal (Price ?l2) = None \<and> ignore_error (plain_literal (Quantity ?l2)) \<noteq> 0"
    by (simp_all add: parse_eval)
  have "map_of (bids (HandleDepthUpdate plain_literal E1_processed ?u1)) (Price ?l1) = None"
    using unparsable_levels_of_applied_update [OF i s1, of plain_literal "[]" ?l1 "[]"] b1 p1'
    by blast
  then have r1: "map_of (bids (HandleDepthUpdate plain_literal E1_processed ?u1)) ''49999'' = None"
    by simp
  have "map_of (asks (HandleDepthUpdate plain_literal E1_processed ?u2)) (Price ?l2)
          = Some \<lparr>Price = 0, Quantity = ignore_error (plain_literal (Quantity ?l2))\<rparr> \<and>
        bestAsk (HandleDepthUpdate plain_literal E1_processed ?u2)
          = (if 0 < bestAsk E1_processed then 0 else bestAsk E1_processed)"
    using unparsable_levels_of_applied_update [OF i s2, of plain_literal "[]" ?l2 "[]"] a2 a2' p2'
    by blast
  then have r2: "map_of (asks (HandleDepthUpdate plain_literal E1_processed ?u2)) ''1e''
              = Some \<lparr>Price = 0, Quantity = 2\<rparr>"
    and r3: "bestAsk (HandleDepthUpdate plain_literal E1_processed ?u2) = 0"
    by (simp_all add: q2 E1_processed_levels)
  from i s1' p1 p2 r1 r2 r3 show ?thesis
    by (simp add: E1_processed_levels)
qed

end
